theory Spec2Isabelle
  imports
    Complex_Main
    "HOL-Library.AList"
    "HOL-Library.Char_ord"
    "HOL-Library.List_Lexorder"
    "HOL-Library.Option_ord"
begin

section \<open>StockLens: ledger, position replay, equity curve and analytics\<close>

text \<open>
  A shallow embedding of the trading core of the StockLens application:
  \<^item> \<^verbatim>\<open>src/lib/services/trade.service.ts\<close> (\<^verbatim>\<open>executeTrade\<close>),
  \<^item> \<^verbatim>\<open>src/lib/services/portfolio.service.ts\<close> (\<^verbatim>\<open>getUserPortfolio\<close>),
  \<^item> the analytics service (\<^verbatim>\<open>calculateDailyReturns\<close>, \<^verbatim>\<open>calculateVolatility\<close>,
    \<^verbatim>\<open>calculateSharpe\<close>, \<^verbatim>\<open>getEquityTimeSeries\<close>, \<^verbatim>\<open>buildPortfolioSnapshot\<close>),
  \<^item> the equity route handler (\<^verbatim>\<open>GET\<close>), and the two mongoose schemas.

  Conventions of the embedding.
  \<^item> A JavaScript \<^verbatim>\<open>number\<close> is a \<^typ>\<open>real\<close>: arithmetic is exact, there is no
    rounding error, no \<^verbatim>\<open>NaN\<close> and no infinity.
  \<^item> A thrown exception is the left injection of a sum; the \<^verbatim>\<open>catch\<close> block of
    \<^verbatim>\<open>executeTrade\<close> aborts the session, so the store is returned as it was.
  \<^item> What the code obtains from outside the repository (string built-ins, \<^verbatim>\<open>Math\<close>,
    the price oracle, the \<^verbatim>\<open>ObjectId\<close> constructor, the clock, the id generator) is a
    field of the record \<open>world\<close>, a parameter of every function that uses it.
  \<^item> A JavaScript \<^verbatim>\<open>Map\<close> is an association list in insertion order:
    \<^const>\<open>map_of\<close> is \<^verbatim>\<open>get\<close>, \<^const>\<open>AList.update\<close> is \<^verbatim>\<open>set\<close> (in place for a
    present key, appended for a new one), \<^const>\<open>AList.delete\<close> is \<^verbatim>\<open>delete\<close>.
\<close>

subsection \<open>Data model\<close>

type_synonym ObjectId = string

text \<open>A \<^verbatim>\<open>Date\<close>: milliseconds since the epoch.\<close>

type_synonym Date = int

text \<open>\<^verbatim>\<open>IUser\<close>, a hydrated user document (schema defaults applied).\<close>

record user =
  balance :: real
  startingBalance :: real

text \<open>\<^verbatim>\<open>ITransaction\<close>, a hydrated transaction document.\<close>

record transaction =
  txn_id :: string
  userId :: ObjectId
  symbol :: string
  txn_type :: string
  quantity :: real
  price :: real
  totalAmount :: real
  createdAt :: Date

text \<open>The two collections. The list of transactions is in insertion order.\<close>

record db =
  users :: "ObjectId \<rightharpoonup> user"
  transactions :: "transaction list"

text \<open>
  The result of \<^verbatim>\<open>getStockDetails\<close>: the flag \<^verbatim>\<open>success\<close> and
  \<^verbatim>\<open>data?.currentPrice\<close> (\<open>None\<close> when \<^verbatim>\<open>data\<close> or the field is absent).
\<close>

record stock_details =
  success :: bool
  currentPrice :: "real option"

text \<open>The response of the Finnhub profile endpoint, as far as the code reads it.\<close>

record profile =
  finnhubIndustry :: "string option"

text \<open>
  The world outside the repository. \<open>new_ObjectId\<close> is \<open>None\<close> where the constructor
  throws. \<open>fetchJSON_profile key token\<close> is the profile request for the symbol \<open>key\<close>:
  \<open>None\<close> when \<^verbatim>\<open>fetchJSON\<close> throws, \<open>Some None\<close> when it resolves to no object.
  \<open>Date_now\<close> is the clock and \<open>fresh_id\<close> the \<^verbatim>\<open>_id\<close> given to a created document.
\<close>

record world =
  toUpperCase :: "string \<Rightarrow> string"
  trim :: "string \<Rightarrow> string"
  toISOString :: "Date \<Rightarrow> string"
  Math_pow :: "real \<Rightarrow> real \<Rightarrow> real"
  Math_sqrt :: "real \<Rightarrow> real"
  getStockDetails :: "string \<Rightarrow> stock_details"
  new_ObjectId :: "string \<Rightarrow> ObjectId option"
  Date_now :: Date
  fresh_id :: string
  Number_toString :: "real \<Rightarrow> string"
  FINNHUB_API_KEY :: "string option"
  NEXT_PUBLIC_FINNHUB_API_KEY :: "string option"
  fetchJSON_profile :: "string \<Rightarrow> string \<Rightarrow> profile option option"

text \<open>
  What a \<^verbatim>\<open>try\<close> block can throw: \<^verbatim>\<open>new Error(message)\<close> of the code itself, the
  error of the \<^verbatim>\<open>ObjectId\<close> constructor on a malformed id, and the validation error of
  \<^verbatim>\<open>save\<close> (the user schema declares \<^verbatim>\<open>balance: { min: 0 }\<close>).
\<close>

datatype thrown = Error string | BSONError | ValidationError

subsection \<open>Trade execution (\<^verbatim>\<open>trade.service.ts\<close>)\<close>

text \<open>The \<^verbatim>\<open>data\<close> of a successful \<^verbatim>\<open>TradeResult\<close>.\<close>

record trade_data =
  r_transactionId :: string
  r_symbol :: string
  r_type :: string
  r_quantity :: real
  r_price :: real
  r_totalAmount :: real
  r_newBalance :: real

text \<open>\<^verbatim>\<open>Transaction.find({ userId, symbol })\<close>.\<close>

definition Transaction_find_symbol :: "db \<Rightarrow> ObjectId \<Rightarrow> string \<Rightarrow> transaction list" where
  "Transaction_find_symbol s uid symb =
     filter (\<lambda>t. userId t = uid \<and> symbol t = symb) (transactions s)"

text \<open>The loop that accumulates \<^verbatim>\<open>netQuantity\<close>, from the value it has so far.\<close>

fun netQuantity_loop :: "real \<Rightarrow> transaction list \<Rightarrow> real" where
  "netQuantity_loop netQuantity [] = netQuantity"
| "netQuantity_loop netQuantity (txn # txns) =
     (if txn_type txn = ''BUY'' then netQuantity_loop (netQuantity + quantity txn) txns
      else if txn_type txn = ''SELL'' then netQuantity_loop (netQuantity - quantity txn) txns
      else netQuantity_loop netQuantity txns)"

text \<open>
  \<^verbatim>\<open>executeTrade\<close>. The result is the \<^verbatim>\<open>TradeResult\<close> (\<open>Inl\<close> for
  \<^verbatim>\<open>success: false\<close>, with what was thrown) and the store after the call: the store
  as it was when the session is aborted, the store with the saved user and the created
  transaction when it is committed. \<^verbatim>\<open>user.save\<close> validates the changed balance against
  the schema (\<^verbatim>\<open>min: 0\<close>); the created transaction passes its schema's checks by the
  earlier checks of the function, and the schema's \<^verbatim>\<open>uppercase\<close> and \<^verbatim>\<open>trim\<close> setters
  find the symbol already normalised. Failures of the database itself are not modelled.
\<close>

definition executeTrade ::
  "world \<Rightarrow> db \<Rightarrow> string \<Rightarrow> string \<Rightarrow> string \<Rightarrow> real \<Rightarrow> (thrown + trade_data) \<times> db" where
  "executeTrade w s uid symb type qty =
    (let upperSymbol = trim w (toUpperCase w symb) in
     if uid = [] \<or> upperSymbol = [] \<or> qty < 1
     then (Inl (Error ''Invalid trade parameters''), s)
     else
       let stockData = getStockDetails w upperSymbol in
       (case (if success stockData then currentPrice stockData else None) of
          None \<Rightarrow> (Inl (Error ''Unable to fetch current stock price''), s)
        | Some p \<Rightarrow>
            if p = 0 then (Inl (Error ''Unable to fetch current stock price''), s)
            else
              let total = p * qty in
              (case new_ObjectId w uid of
                 None \<Rightarrow> (Inl BSONError, s)
               | Some userObjectId \<Rightarrow>
                   (case users s userObjectId of
                      None \<Rightarrow> (Inl (Error ''User not found''), s)
                    | Some u \<Rightarrow>
                        (case
                           (if type = ''BUY'' then
                              (if balance u < total then Inl (Error ''Insufficient balance'')
                               else Inr (u\<lparr>balance := balance u - total\<rparr>))
                            else if type = ''SELL'' then
                              (if netQuantity_loop 0 (Transaction_find_symbol s userObjectId upperSymbol) < qty
                               then Inl (Error ''Insufficient holdings'')
                               else Inr (u\<lparr>balance := balance u + total\<rparr>))
                            else Inl (Error ''Invalid transaction type''))
                         of
                           Inl e \<Rightarrow> (Inl e, s)
                         | Inr u' \<Rightarrow>
                             if balance u' < 0 then (Inl ValidationError, s)
                             else
                               (Inr \<lparr>r_transactionId = fresh_id w, r_symbol = upperSymbol,
                                     r_type = type, r_quantity = qty, r_price = p,
                                     r_totalAmount = total, r_newBalance = balance u'\<rparr>,
                                s\<lparr>users := (users s)(userObjectId \<mapsto> u'),
                                  transactions := transactions s @
                                    [\<lparr>txn_id = fresh_id w, userId = userObjectId,
                                      symbol = upperSymbol, txn_type = type, quantity = qty,
                                      price = p, totalAmount = total,
                                      createdAt = Date_now w\<rparr>]\<rparr>))))))"

text \<open>A request: the arguments \<^verbatim>\<open>userId\<close>, \<^verbatim>\<open>symbol\<close>, \<^verbatim>\<open>type\<close>, \<^verbatim>\<open>quantity\<close>.\<close>

type_synonym request = "string \<times> string \<times> string \<times> real"

text \<open>
  A history of the store: requests served one after the other, each in the world (prices,
  clock) of its moment.
\<close>

fun run_trades :: "db \<Rightarrow> (world \<times> request) list \<Rightarrow> db" where
  "run_trades s [] = s"
| "run_trades s ((w, (uid, symb, type, qty)) # rs) =
     run_trades (snd (executeTrade w s uid symb type qty)) rs"

text \<open>The signed cash effect of a committed transaction and the net effect of a log on a user.\<close>

definition cash_effect :: "transaction \<Rightarrow> real" where
  "cash_effect t =
     (if txn_type t = ''SELL'' then totalAmount t
      else if txn_type t = ''BUY'' then - totalAmount t else 0)"

definition net_cash :: "ObjectId \<Rightarrow> transaction list \<Rightarrow> real" where
  "net_cash uid txns = sum_list (map cash_effect (filter (\<lambda>t. userId t = uid) txns))"

text \<open>The signed quantity of a transaction (BUY positive, SELL negative).\<close>

definition signed_quantity :: "transaction \<Rightarrow> real" where
  "signed_quantity t =
     (if txn_type t = ''BUY'' then quantity t
      else if txn_type t = ''SELL'' then - quantity t else 0)"


text \<open>
  Ledger consistency of one account: the account exists, its starting balance is \<open>sb\<close>,
  and its cash balance is \<open>sb\<close> plus the net cash effect of the user's committed
  transactions.
\<close>

definition ledger_ok :: "db \<Rightarrow> ObjectId \<Rightarrow> real \<Rightarrow> bool" where
  "ledger_ok s oid sb =
     (case users s oid of
        None \<Rightarrow> False
      | Some u \<Rightarrow> startingBalance u = sb \<and> balance u = sb + net_cash oid (transactions s))"

subsection \<open>Position replay and portfolio (\<^verbatim>\<open>portfolio.service.ts\<close>)\<close>

text \<open>The value of the \<^verbatim>\<open>symbolState\<close> map: \<^verbatim>\<open>{ quantity, totalCost }\<close>.\<close>

record symbol_state =
  st_quantity :: real
  st_totalCost :: real

text \<open>An element of \<^verbatim>\<open>activeSymbols\<close>.\<close>

record active_symbol =
  a_symbol :: string
  a_netQty :: real
  a_avgCost :: real

record Position =
  pos_symbol :: string
  netQty :: real
  avgCost :: real
  pos_currentPrice :: real
  marketValue :: real
  unrealizedPnL :: real
  gainPercent :: real
  allocationPercent :: real

record Portfolio =
  pf_balance :: real
  positions :: "Position list"
  totalMarketValue :: real
  totalUnrealizedPnL :: real
  totalEquity :: real
  totalReturn :: real
  totalReturnPercent :: real

text \<open>\<^verbatim>\<open>x || d\<close> on numbers: \<open>d\<close> when \<open>x\<close> is zero.\<close>

definition or_default :: "real \<Rightarrow> real \<Rightarrow> real" where
  "or_default x d = (if x = 0 then d else x)"

text \<open>
  \<^verbatim>\<open>Transaction.find({ userId }).sort({ createdAt: 1 })\<close>; documents with equal
  \<^verbatim>\<open>createdAt\<close> are kept in insertion order.
\<close>

definition Transaction_find_sorted :: "db \<Rightarrow> ObjectId \<Rightarrow> transaction list" where
  "Transaction_find_sorted s uid =
     sort_key createdAt (filter (\<lambda>t. userId t = uid) (transactions s))"

text \<open>The body of the replay loop: one transaction applied to \<^verbatim>\<open>symbolState\<close>.\<close>

definition replay_step ::
  "(string \<times> symbol_state) list \<Rightarrow> transaction \<Rightarrow> (string \<times> symbol_state) list" where
  "replay_step symbolState txn =
    (if txn_type txn = ''BUY'' then
       (let state = (case map_of symbolState (symbol txn) of
                       None \<Rightarrow> \<lparr>st_quantity = 0, st_totalCost = 0\<rparr>
                     | Some st \<Rightarrow> st)
        in AList.update (symbol txn)
             \<lparr>st_quantity = st_quantity state + quantity txn,
              st_totalCost = st_totalCost state + totalAmount txn\<rparr> symbolState)
     else if txn_type txn = ''SELL'' then
       (case map_of symbolState (symbol txn) of
          None \<Rightarrow> symbolState
        | Some state \<Rightarrow>
            (let avgCostBeforeSell =
                   (if st_quantity state > 0 then st_totalCost state / st_quantity state else 0);
                 state' = \<lparr>st_quantity = st_quantity state - quantity txn,
                           st_totalCost = st_totalCost state - avgCostBeforeSell * quantity txn\<rparr>
             in if st_quantity state' \<le> 0 then AList.delete (symbol txn) symbolState
                else AList.update (symbol txn) state' symbolState))
     else symbolState)"

definition replay :: "transaction list \<Rightarrow> (string \<times> symbol_state) list" where
  "replay txns = foldl replay_step [] txns"

text \<open>The loop over \<^verbatim>\<open>symbolState.entries()\<close> that builds \<^verbatim>\<open>activeSymbols\<close>.\<close>

fun activeSymbols_of :: "(string \<times> symbol_state) list \<Rightarrow> active_symbol list" where
  "activeSymbols_of [] = []"
| "activeSymbols_of ((symb, state) # rest) =
     (if st_quantity state \<le> 0 then activeSymbols_of rest
      else \<lparr>a_symbol = symb, a_netQty = st_quantity state,
            a_avgCost = (if st_quantity state > 0 then st_totalCost state / st_quantity state else 0)\<rparr>
           # activeSymbols_of rest)"

text \<open>
  The loop that builds \<^verbatim>\<open>tempPositions\<close> (a position without a valid price is skipped);
  \<^verbatim>\<open>allocationPercent\<close> is filled in afterwards.
\<close>

fun tempPositions_of :: "world \<Rightarrow> active_symbol list \<Rightarrow> Position list" where
  "tempPositions_of w [] = []"
| "tempPositions_of w (a # rest) =
     (let stockData = getStockDetails w (a_symbol a) in
      case (if success stockData then currentPrice stockData else None) of
        None \<Rightarrow> tempPositions_of w rest
      | Some cp \<Rightarrow>
          if cp = 0 \<or> cp \<le> 0 then tempPositions_of w rest
          else
            \<lparr>pos_symbol = a_symbol a, netQty = a_netQty a, avgCost = a_avgCost a,
             pos_currentPrice = cp, marketValue = a_netQty a * cp,
             unrealizedPnL = (cp - a_avgCost a) * a_netQty a,
             gainPercent = (if a_avgCost a > 0 then (cp - a_avgCost a) / a_avgCost a * 100 else 0),
             allocationPercent = 0\<rparr> # tempPositions_of w rest)"

definition getUserPortfolio :: "world \<Rightarrow> db \<Rightarrow> string \<Rightarrow> thrown + Portfolio" where
  "getUserPortfolio w s uid =
    (case new_ObjectId w uid of
       None \<Rightarrow> Inl BSONError
     | Some userObjectId \<Rightarrow>
         (case users s userObjectId of
            None \<Rightarrow> Inl (Error ''User not found'')
          | Some u \<Rightarrow>
              (let bal = or_default (balance u) 0;
                   sb = or_default (startingBalance u) 100000;
                   txns = Transaction_find_sorted s userObjectId;
                   activeSymbols = activeSymbols_of (replay txns);
                   tempPositions = tempPositions_of w activeSymbols;
                   tmv = foldl (\<lambda>acc pos. acc + marketValue pos) 0 tempPositions;
                   poss = map (\<lambda>pos. pos\<lparr>allocationPercent :=
                                 (if tmv > 0 then marketValue pos / tmv * 100 else 0)\<rparr>)
                            tempPositions;
                   tup = foldl (\<lambda>acc pos. acc + unrealizedPnL pos) 0 poss;
                   te = bal + tmv;
                   tr = te - sb
               in Inr \<lparr>pf_balance = bal, positions = poss, totalMarketValue = tmv,
                       totalUnrealizedPnL = tup, totalEquity = te, totalReturn = tr,
                       totalReturnPercent = (if sb > 0 then tr / sb * 100 else 0)\<rparr>)))"


subsection \<open>Equity time series (analytics service and equity route)\<close>

text \<open>
  Both equity builders read their documents with \<^verbatim>\<open>.lean()\<close>, as plain objects, and
  check them before use: \<^verbatim>\<open>createdAt\<close> may be missing and \<^verbatim>\<open>totalAmount\<close> may not be
  a number (\<open>None\<close>), and \<^verbatim>\<open>type\<close> may be any string. A lean store is a store of
  such plain objects; \<open>lean_db_of\<close> is the lean view of a store of hydrated documents.
\<close>

record lean_user =
  lu_startingBalance :: "real option"

record lean_transaction =
  l_userId :: ObjectId
  l_symbol :: string
  l_type :: string
  l_quantity :: real
  l_price :: real
  l_totalAmount :: "real option"
  l_createdAt :: "Date option"

record lean_db =
  l_users :: "ObjectId \<rightharpoonup> lean_user"
  l_transactions :: "lean_transaction list"

definition lean_transaction_of :: "transaction \<Rightarrow> lean_transaction" where
  "lean_transaction_of t =
     \<lparr>l_userId = userId t, l_symbol = symbol t, l_type = txn_type t, l_quantity = quantity t,
      l_price = price t, l_totalAmount = Some (totalAmount t), l_createdAt = Some (createdAt t)\<rparr>"

definition lean_db_of :: "db \<Rightarrow> lean_db" where
  "lean_db_of s =
     \<lparr>l_users = (\<lambda>uid. case users s uid of
                          None \<Rightarrow> None
                        | Some u \<Rightarrow> Some \<lparr>lu_startingBalance = Some (startingBalance u)\<rparr>),
      l_transactions = map lean_transaction_of (transactions s)\<rparr>"

text \<open>
  \<^verbatim>\<open>Transaction.find({ userId }).sort({ createdAt: 1 }).lean()\<close>: a document without
  \<^verbatim>\<open>createdAt\<close> sorts before every dated one (\<open>None\<close> is least in the order on
  options), documents with equal keys stay in insertion order.
\<close>

definition lean_find_sorted :: "lean_db \<Rightarrow> ObjectId \<Rightarrow> lean_transaction list" where
  "lean_find_sorted s uid =
     sort_key l_createdAt (filter (\<lambda>t. l_userId t = uid) (l_transactions s))"

record EquityPoint =
  date :: string
  equity :: real

text \<open>The variables of the loop: \<^verbatim>\<open>cash\<close>, \<^verbatim>\<open>holdings\<close>, \<^verbatim>\<open>lastPrice\<close>, \<^verbatim>\<open>points\<close>.\<close>

record equity_state =
  cash :: real
  holdings :: "(string \<times> real) list"
  lastPrice :: "(string \<times> real) list"
  points :: "EquityPoint list"

text \<open>\<^verbatim>\<open>m.get(k) ?? 0\<close>, and for numbers also \<^verbatim>\<open>m.get(k) || 0\<close>.\<close>

definition get_or_0 :: "(string \<times> real) list \<Rightarrow> string \<Rightarrow> real" where
  "get_or_0 m k = (case map_of m k of None \<Rightarrow> 0 | Some v \<Rightarrow> v)"

text \<open>The inner loop: \<^verbatim>\<open>holdingsValue += qty * (lastPrice.get(sym) ?? 0)\<close>.\<close>

definition holdingsValue_of :: "(string \<times> real) list \<Rightarrow> (string \<times> real) list \<Rightarrow> real" where
  "holdingsValue_of hs lp = foldl (\<lambda>hv (symb, qty). hv + qty * get_or_0 lp symb) 0 hs"

text \<open>
  The state updates of one loop iteration on a transaction that passed the checks:
  the new \<^verbatim>\<open>cash\<close>, \<^verbatim>\<open>holdings\<close> and \<^verbatim>\<open>lastPrice\<close>. The two builders share them
  literally.
\<close>

definition apply_txn ::
  "real \<Rightarrow> (string \<times> real) list \<Rightarrow> (string \<times> real) list \<Rightarrow> lean_transaction \<Rightarrow> real \<Rightarrow>
   real \<times> (string \<times> real) list \<times> (string \<times> real) list" where
  "apply_txn c hs lp txn amount =
    (let symb = l_symbol txn; qty = l_quantity txn in
     if l_type txn = ''BUY'' then
       (c - amount, AList.update symb (get_or_0 hs symb + qty) hs, AList.update symb (l_price txn) lp)
     else
       (let newQty = get_or_0 hs symb - qty in
        (c + amount,
         (if newQty \<le> 0 then AList.delete symb hs else AList.update symb newQty hs),
         AList.update symb (l_price txn) lp)))"

text \<open>One iteration of the loop of \<^verbatim>\<open>getEquityTimeSeries\<close>, with its three \<^verbatim>\<open>continue\<close>s.\<close>

definition equity_step :: "world \<Rightarrow> equity_state \<Rightarrow> lean_transaction \<Rightarrow> equity_state" where
  "equity_step w st txn =
    (case l_createdAt txn of
       None \<Rightarrow> st
     | Some created \<Rightarrow>
         (case l_totalAmount txn of
            None \<Rightarrow> st
          | Some amount \<Rightarrow>
              if amount \<le> 0 then st
              else if l_type txn \<noteq> ''BUY'' \<and> l_type txn \<noteq> ''SELL'' then st
              else
                (case apply_txn (cash st) (holdings st) (lastPrice st) txn amount of
                   (c, hs, lp) \<Rightarrow>
                     \<lparr>cash = c, holdings = hs, lastPrice = lp,
                      points = points st @
                        [\<lparr>date = toISOString w created,
                          equity = c + holdingsValue_of hs lp\<rparr>]\<rparr>)))"

definition getEquityTimeSeries :: "world \<Rightarrow> lean_db \<Rightarrow> string \<Rightarrow> thrown + EquityPoint list" where
  "getEquityTimeSeries w s uid =
    (case new_ObjectId w uid of
       None \<Rightarrow> Inl BSONError
     | Some userObjectId \<Rightarrow>
         (case l_users s userObjectId of
            None \<Rightarrow> Inl (Error ''User not found'')
          | Some u \<Rightarrow>
              (let sb = (case lu_startingBalance u of Some b \<Rightarrow> b | None \<Rightarrow> 100000);
                   txns = lean_find_sorted s userObjectId
               in if txns = []
                  then Inr [\<lparr>date = toISOString w (Date_now w), equity = sb\<rparr>]
                  else Inr (points (foldl (equity_step w)
                              \<lparr>cash = sb, holdings = [], lastPrice = [], points = []\<rparr> txns)))))"

text \<open>
  \<^verbatim>\<open>Number(x.toFixed(f))\<close>: the decimal with \<open>f\<close> fraction digits nearest to \<open>x\<close>, the
  one of larger magnitude when two are equally near (the sign is set aside first).
\<close>

definition toFixed_Number :: "nat \<Rightarrow> real \<Rightarrow> real" where
  "toFixed_Number f x =
     (if x < 0 then - (of_int \<lfloor>(- x) * 10 ^ f + 1 / 2\<rfloor> / 10 ^ f)
      else of_int \<lfloor>x * 10 ^ f + 1 / 2\<rfloor> / 10 ^ f)"

text \<open>The equity route handler \<^verbatim>\<open>GET\<close>: its data points and its responses.\<close>

record PnLDataPoint =
  pnl_date :: string
  pnl :: real

record pnl_state =
  g_cash :: real
  g_holdings :: "(string \<times> real) list"
  g_lastPrice :: "(string \<times> real) list"
  pnlData :: "PnLDataPoint list"

datatype response = Json_error string nat | Json_pnl "PnLDataPoint list"

definition pnl_step :: "world \<Rightarrow> real \<Rightarrow> pnl_state \<Rightarrow> lean_transaction \<Rightarrow> pnl_state" where
  "pnl_step w sb st txn =
    (case l_createdAt txn of
       None \<Rightarrow> st
     | Some created \<Rightarrow>
         (case l_totalAmount txn of
            None \<Rightarrow> st
          | Some amount \<Rightarrow>
              if amount \<le> 0 then st
              else if l_type txn \<noteq> ''BUY'' \<and> l_type txn \<noteq> ''SELL'' then st
              else
                (case apply_txn (g_cash st) (g_holdings st) (g_lastPrice st) txn amount of
                   (c, hs, lp) \<Rightarrow>
                     \<lparr>g_cash = c, g_holdings = hs, g_lastPrice = lp,
                      pnlData = pnlData st @
                        [\<lparr>pnl_date = toISOString w created,
                          pnl = toFixed_Number 2 (c + holdingsValue_of hs lp - sb)\<rparr>]\<rparr>)))"

text \<open>\<open>session\<close> is \<^verbatim>\<open>session?.user?.id\<close>, \<open>None\<close> when there is none.\<close>

definition GET :: "world \<Rightarrow> lean_db \<Rightarrow> string option \<Rightarrow> response" where
  "GET w s session =
    (case session of
       None \<Rightarrow> Json_error ''Unauthorized'' 401
     | Some uid \<Rightarrow>
         if uid = [] then Json_error ''Unauthorized'' 401
         else
           (case new_ObjectId w uid of
              None \<Rightarrow> Json_error ''Internal server error'' 500
            | Some userObjectId \<Rightarrow>
                (case l_users s userObjectId of
                   None \<Rightarrow> Json_error ''User not found'' 404
                 | Some u \<Rightarrow>
                     (let sb = (case lu_startingBalance u of Some b \<Rightarrow> b | None \<Rightarrow> 100000);
                          txns = lean_find_sorted s userObjectId
                      in if txns = []
                         then Json_pnl [\<lparr>pnl_date = toISOString w (Date_now w), pnl = 0\<rparr>]
                         else Json_pnl (pnlData (foldl (pnl_step w sb)
                                \<lparr>g_cash = sb, g_holdings = [], g_lastPrice = [], pnlData = []\<rparr>
                                txns))))))"

text \<open>
  The checks of the loops, as one predicate: a transaction is valid when it has a
  timestamp, a positive \<^verbatim>\<open>totalAmount\<close> and the type BUY or SELL; otherwise malformed.
\<close>

definition valid_txn :: "lean_transaction \<Rightarrow> bool" where
  "valid_txn txn =
     (l_createdAt txn \<noteq> None \<and>
      (case l_totalAmount txn of None \<Rightarrow> False | Some amount \<Rightarrow> 0 < amount) \<and>
      (l_type txn = ''BUY'' \<or> l_type txn = ''SELL''))"


subsection \<open>Analytics (\<^verbatim>\<open>calculateDailyReturns\<close> to \<^verbatim>\<open>buildPortfolioSnapshot\<close>)\<close>

text \<open>
  The loop over \<^verbatim>\<open>dailyEquities\<close>: from the second element on, the return against the
  previous element, skipped when the previous element is zero.
\<close>

fun returns_loop :: "real list \<Rightarrow> real list" where
  "returns_loop (prev # cur # rest) =
     (if prev = 0 then returns_loop (cur # rest)
      else (cur - prev) / prev # returns_loop (cur # rest))"
| "returns_loop _ = []"

text \<open>
  \<^verbatim>\<open>byDay\<close> is keyed by the first ten characters of the date; the entries are sorted by
  key (\<^verbatim>\<open>localeCompare\<close> on \<^verbatim>\<open>YYYY-MM-DD\<close> keys is the lexicographic order).
\<close>

definition calculateDailyReturns :: "EquityPoint list \<Rightarrow> real list" where
  "calculateDailyReturns pts =
    (if length pts < 2 then []
     else
       (let byDay = foldl (\<lambda>m p. AList.update (take 10 (date p)) (equity p) m) [] pts;
            dailyEquities = map snd (sort_key fst byDay)
        in returns_loop dailyEquities))"

definition calculateVolatility :: "world \<Rightarrow> real list \<Rightarrow> real" where
  "calculateVolatility w dailyReturns =
    (if length dailyReturns < 2 then 0
     else
       (let n = real (length dailyReturns);
            mean = foldl (\<lambda>acc r. acc + r) 0 dailyReturns / n;
            variance = foldl (\<lambda>acc r. acc + Math_pow w (r - mean) 2) 0 dailyReturns / (n - 1);
            dailyStdDev = Math_sqrt w variance
        in dailyStdDev * Math_sqrt w 252))"

definition calculateSharpe :: "real \<Rightarrow> real \<Rightarrow> real \<Rightarrow> real" where
  "calculateSharpe annualisedReturn annualisedVolatility riskFreeRate =
    (if annualisedVolatility = 0 then 0
     else (annualisedReturn - riskFreeRate) / annualisedVolatility)"

text \<open>The module-level \<^verbatim>\<open>sectorCache\<close> is state: passed in and returned.\<close>

type_synonym sector_cache = "(string \<times> string) list"

definition getSymbolSector :: "world \<Rightarrow> sector_cache \<Rightarrow> string \<Rightarrow> string \<times> sector_cache" where
  "getSymbolSector w cache symb =
    (let key = toUpperCase w symb in
     case map_of cache key of
       Some sect \<Rightarrow> (sect, cache)
     | None \<Rightarrow>
         (let token = (case FINNHUB_API_KEY w of
                         Some t \<Rightarrow> t
                       | None \<Rightarrow> (case NEXT_PUBLIC_FINNHUB_API_KEY w of Some t \<Rightarrow> t | None \<Rightarrow> []))
          in if token = [] then (''Unknown'', cache)
             else
               (case fetchJSON_profile w key token of
                  None \<Rightarrow> (''Unknown'', AList.update key ''Unknown'' cache)
                | Some prof \<Rightarrow>
                    (let sect = (case prof of
                                   None \<Rightarrow> ''Unknown''
                                 | Some pr \<Rightarrow>
                                     (case finnhubIndustry pr of
                                        None \<Rightarrow> ''Unknown''
                                      | Some i \<Rightarrow> if i = [] then ''Unknown'' else i))
                     in (sect, AList.update key sect cache)))))"

record LargestPosition =
  lp_symbol :: string
  lp_allocationPct :: real

record SectorAllocation =
  sector :: string
  allocationPct :: real

datatype risk_level = LOW | MEDIUM | HIGH

record PortfolioSnapshot =
  snap_totalEquity :: real
  totalReturnPct :: real
  displayTotalReturnPct :: string
  cashAllocationPct :: real
  largestPosition :: "LargestPosition option"
  concentrationRiskLevel :: risk_level
  sectorBreakdown :: "SectorAllocation list"
  volatility :: real
  sharpeRatio :: real
  topGainer :: "string option"
  topLoser :: "string option"

text \<open>
  The sections of \<^verbatim>\<open>buildPortfolioSnapshot\<close>, one definition for each, named after the
  variable the section computes.
\<close>

definition cashAllocationPct_of :: "Portfolio \<Rightarrow> real" where
  "cashAllocationPct_of portfolio =
     (if totalEquity portfolio > 0 then pf_balance portfolio / totalEquity portfolio * 100 else 0)"

text \<open>\<^verbatim>\<open>positions.reduce((a, b) => a.marketValue > b.marketValue ? a : b)\<close>, on a non-empty array.\<close>

definition largest_of :: "Position \<Rightarrow> Position list \<Rightarrow> Position" where
  "largest_of p ps = foldl (\<lambda>a b. if marketValue a > marketValue b then a else b) p ps"

definition largestPosition_of :: "Portfolio \<Rightarrow> LargestPosition option" where
  "largestPosition_of portfolio =
    (case positions portfolio of
       [] \<Rightarrow> None
     | p # ps \<Rightarrow>
         (let largest = largest_of p ps in
          Some \<lparr>lp_symbol = pos_symbol largest,
                lp_allocationPct =
                  (if totalEquity portfolio > 0
                   then toFixed_Number 2 (marketValue largest / totalEquity portfolio * 100)
                   else 0)\<rparr>))"

definition concentrationRiskLevel_of :: "LargestPosition option \<Rightarrow> risk_level" where
  "concentrationRiskLevel_of lp =
    (let topAllocation = (case lp of None \<Rightarrow> 0 | Some l \<Rightarrow> lp_allocationPct l) in
     if topAllocation > 40 then HIGH else if topAllocation > 25 then MEDIUM else LOW)"

text \<open>
  The sector lookups of \<^verbatim>\<open>Promise.all(positions.map(...))\<close>, one position after the
  other. (The calls of the source overlap; with a world that answers a request the same
  way each time the results and the final cache are the same.)
\<close>

fun sectorResults_of ::
  "world \<Rightarrow> sector_cache \<Rightarrow> Position list \<Rightarrow> (string \<times> real) list \<times> sector_cache" where
  "sectorResults_of w cache [] = ([], cache)"
| "sectorResults_of w cache (pos # rest) =
     (case getSymbolSector w cache (pos_symbol pos) of
        (sect, cache') \<Rightarrow>
          (case sectorResults_of w cache' rest of
             (results, cache'') \<Rightarrow> ((sect, marketValue pos) # results, cache'')))"

definition sectorBreakdown_of :: "Portfolio \<Rightarrow> (string \<times> real) list \<Rightarrow> SectorAllocation list" where
  "sectorBreakdown_of portfolio sectorResults =
    (let sectorMap = foldl (\<lambda>m (sect, mv). AList.update sect (get_or_0 m sect + mv) m) []
                       sectorResults
     in sort_key (\<lambda>a. - allocationPct a)
          (map (\<lambda>(sect, v).
                  \<lparr>sector = sect,
                   allocationPct =
                     (if totalEquity portfolio > 0
                      then toFixed_Number 2 (v / totalEquity portfolio * 100)
                      else 0)\<rparr>)
             sectorMap))"

text \<open>\<^verbatim>\<open>equityPoints[0]?.equity ?? 0\<close> and \<^verbatim>\<open>equityPoints[equityPoints.length - 1]?.equity ?? 0\<close>.\<close>

definition firstEquity_of :: "EquityPoint list \<Rightarrow> real" where
  "firstEquity_of pts = (case pts of [] \<Rightarrow> 0 | p # _ \<Rightarrow> equity p)"

definition lastEquity_of :: "EquityPoint list \<Rightarrow> real" where
  "lastEquity_of pts = (if pts = [] then 0 else equity (last pts))"

definition totalReturn_of :: "EquityPoint list \<Rightarrow> real" where
  "totalReturn_of equityPoints =
    (let firstEquity = firstEquity_of equityPoints;
         lastEquity = lastEquity_of equityPoints
     in if firstEquity > 0 then (lastEquity - firstEquity) / firstEquity else 0)"

definition annualisedReturn_of :: "world \<Rightarrow> EquityPoint list \<Rightarrow> real list \<Rightarrow> real" where
  "annualisedReturn_of w equityPoints dailyReturns =
    (let tr = totalReturn_of equityPoints;
         numDays = length dailyReturns
     in if numDays > 0 then Math_pow w (1 + tr) (252 / real numDays) - 1 else 0)"

text \<open>Top gainer and top loser: the ends of the positions sorted by \<^verbatim>\<open>gainPercent\<close>.\<close>

definition topGainerLoser_of :: "Position list \<Rightarrow> string option \<times> string option" where
  "topGainerLoser_of ps =
    (if ps = [] then (None, None)
     else
       (let sorted_ps = sort_key gainPercent ps;
            loser = pos_symbol (hd sorted_ps);
            gainer = pos_symbol (last sorted_ps)
        in (Some gainer, if gainer = loser then None else Some loser)))"

text \<open>
  \<^verbatim>\<open>buildPortfolioSnapshot\<close> after its two reads: the snapshot computed from the
  portfolio and the equity points, and the sector cache after the lookups.
\<close>

definition snapshot_of ::
  "world \<Rightarrow> sector_cache \<Rightarrow> Portfolio \<Rightarrow> EquityPoint list \<Rightarrow> PortfolioSnapshot \<times> sector_cache" where
  "snapshot_of w cache portfolio equityPoints =
    (let lp = largestPosition_of portfolio;
         (sectorResults, cache') =
            (if positions portfolio = [] then ([], cache)
             else sectorResults_of w cache (positions portfolio));
         dailyReturns = calculateDailyReturns equityPoints;
         annualisedVolatility = calculateVolatility w dailyReturns;
         annualisedReturn = annualisedReturn_of w equityPoints dailyReturns;
         sharpe = calculateSharpe annualisedReturn annualisedVolatility 0.03;
         (gainer, loser) = topGainerLoser_of (positions portfolio);
         roundedTotalReturnPct = toFixed_Number 2 (totalReturnPercent portfolio)
     in (\<lparr>snap_totalEquity = totalEquity portfolio,
          totalReturnPct = roundedTotalReturnPct,
          displayTotalReturnPct = Number_toString w roundedTotalReturnPct @ ''%'',
          cashAllocationPct = cashAllocationPct_of portfolio,
          largestPosition = lp,
          concentrationRiskLevel = concentrationRiskLevel_of lp,
          sectorBreakdown =
            (if positions portfolio = [] then [] else sectorBreakdown_of portfolio sectorResults),
          volatility = toFixed_Number 4 annualisedVolatility,
          sharpeRatio = toFixed_Number 4 sharpe,
          topGainer = gainer,
          topLoser = loser\<rparr>, cache'))"

text \<open>
  \<^verbatim>\<open>buildPortfolioSnapshot\<close>: the two reads of \<^verbatim>\<open>Promise.all\<close> (both fail in the same
  cases, a malformed id or a missing user), then the snapshot.
\<close>

definition buildPortfolioSnapshot ::
  "world \<Rightarrow> sector_cache \<Rightarrow> db \<Rightarrow> string \<Rightarrow> (thrown + PortfolioSnapshot) \<times> sector_cache" where
  "buildPortfolioSnapshot w cache s uid =
    (case getUserPortfolio w s uid of
       Inl e \<Rightarrow> (Inl e, cache)
     | Inr portfolio \<Rightarrow>
         (case getEquityTimeSeries w (lean_db_of s) uid of
            Inl e \<Rightarrow> (Inl e, cache)
          | Inr equityPoints \<Rightarrow>
              (case snapshot_of w cache portfolio equityPoints of
                 (snapshot, cache') \<Rightarrow> (Inr snapshot, cache'))))"

text \<open>
  The full-precision market value of a sector: the sum of the market values that the
  sector lookups filed under it.
\<close>

definition sector_total :: "string \<Rightarrow> (string \<times> real) list \<Rightarrow> real" where
  "sector_total sect sectorResults =
     sum_list (map snd (filter (\<lambda>r. fst r = sect) sectorResults))"

text \<open>
  The thresholds in the words of the specification, on the full-precision share of the
  largest position: above 40 is HIGH, above 25 is MEDIUM, else LOW.
\<close>

definition spec_concentration_level :: "real \<Rightarrow> risk_level" where
  "spec_concentration_level share =
     (if share > 40 then HIGH else if share > 25 then MEDIUM else LOW)"


subsection \<open>A concrete world and store\<close>

text \<open>
  A world to run the definitions in: ASCII upper-casing, trimming of spaces, a calendar
  for the first days of 1970 (the time of day is not printed), the real power and square
  root, ids of 24 characters, and a price oracle that quotes AAPL only.
\<close>

definition ascii_upper :: "char \<Rightarrow> char" where
  "ascii_upper c =
     (case map_of (zip ''abcdefghijklmnopqrstuvwxyz'' ''ABCDEFGHIJKLMNOPQRSTUVWXYZ'') c of
        None \<Rightarrow> c
      | Some d \<Rightarrow> d)"

definition strip_spaces :: "string \<Rightarrow> string" where
  "strip_spaces str =
     rev (dropWhile (\<lambda>c. c = CHR '' '') (rev (dropWhile (\<lambda>c. c = CHR '' '') str)))"

definition day_ms :: int where
  "day_ms = 86400000"

definition iso_1970 :: "Date \<Rightarrow> string" where
  "iso_1970 d =
     (if d < day_ms then ''1970-01-01T00:00:00.000Z''
      else if d < 2 * day_ms then ''1970-01-02T00:00:00.000Z''
      else if d < 3 * day_ms then ''1970-01-03T00:00:00.000Z''
      else ''1970-01-04T00:00:00.000Z'')"

definition quote :: "real \<Rightarrow> string \<Rightarrow> stock_details" where
  "quote p symb =
     (if symb = ''AAPL'' then \<lparr>success = True, currentPrice = Some p\<rparr>
      else \<lparr>success = False, currentPrice = None\<rparr>)"

definition demo_world :: "real \<Rightarrow> Date \<Rightarrow> string \<Rightarrow> world" where
  "demo_world p t i =
     \<lparr>toUpperCase = map ascii_upper, trim = strip_spaces, toISOString = iso_1970,
      Math_pow = (powr), Math_sqrt = sqrt, getStockDetails = quote p,
      new_ObjectId = (\<lambda>str. if length str = 24 then Some str else None),
      Date_now = t, fresh_id = i, Number_toString = (\<lambda>x. ''?''),
      FINNHUB_API_KEY = None, NEXT_PUBLIC_FINNHUB_API_KEY = None,
      fetchJSON_profile = (\<lambda>key token. None)\<rparr>"

definition alice :: string where
  "alice = ''0123456789abcdef01234567''"

definition demo_db :: db where
  "demo_db =
     \<lparr>users = [alice \<mapsto> \<lparr>balance = 100000, startingBalance = 100000\<rparr>], transactions = []\<rparr>"

text \<open>The scenario of the specification: BUY 100 AAPL at 150, then SELL 50 AAPL at 160.\<close>

definition demo_trades :: "(world \<times> request) list" where
  "demo_trades =
     [(demo_world 150 1000 ''t1'', (alice, '' aapl'', ''BUY'', 100)),
      (demo_world 160 2000 ''t2'', (alice, ''AAPL'', ''SELL'', 50))]"

text \<open>The store after the first trade of the scenario.\<close>

definition demo_db_after_buy :: db where
  "demo_db_after_buy =
     \<lparr>users = [alice \<mapsto> \<lparr>balance = 85000, startingBalance = 100000\<rparr>],
      transactions =
        [\<lparr>txn_id = ''t1'', userId = alice, symbol = ''AAPL'', txn_type = ''BUY'',
          quantity = 100, price = 150, totalAmount = 15000, createdAt = 1000\<rparr>]\<rparr>"

text \<open>
  A position closed and opened again: BUY 10 at 10, SELL 10 at 15, BUY 5 at 20, of one
  symbol, for any user, ids and times.
\<close>

definition reopen_log ::
  "ObjectId \<Rightarrow> string \<Rightarrow> string \<Rightarrow> string \<Rightarrow> string \<Rightarrow> Date \<Rightarrow> Date \<Rightarrow> Date \<Rightarrow> transaction list" where
  "reopen_log uid symb i1 i2 i3 t1 t2 t3 =
     [\<lparr>txn_id = i1, userId = uid, symbol = symb, txn_type = ''BUY'',
       quantity = 10, price = 10, totalAmount = 100, createdAt = t1\<rparr>,
      \<lparr>txn_id = i2, userId = uid, symbol = symb, txn_type = ''SELL'',
       quantity = 10, price = 15, totalAmount = 150, createdAt = t2\<rparr>,
      \<lparr>txn_id = i3, userId = uid, symbol = symb, txn_type = ''BUY'',
       quantity = 5, price = 20, totalAmount = 100, createdAt = t3\<rparr>]"

definition demo_db_reopen :: db where
  "demo_db_reopen =
     \<lparr>users = [alice \<mapsto> \<lparr>balance = 99950, startingBalance = 100000\<rparr>],
      transactions = reopen_log alice ''AAPL'' ''t1'' ''t2'' ''t3'' 1000 2000 3000\<rparr>"

text \<open>
  Two lean stores. In the first, two valid transactions on two days stand between
  two malformed ones (no timestamp; an unknown type). In the second every transaction is
  malformed (no timestamp; a total amount of zero; an unknown type).
\<close>

definition demo_lean_mixed :: lean_db where
  "demo_lean_mixed =
     \<lparr>l_users = [alice \<mapsto> \<lparr>lu_startingBalance = Some 100000\<rparr>],
      l_transactions =
        [\<lparr>l_userId = alice, l_symbol = ''AAPL'', l_type = ''BUY'', l_quantity = 100,
          l_price = 150, l_totalAmount = Some 15000, l_createdAt = Some 1000\<rparr>,
         \<lparr>l_userId = alice, l_symbol = ''AAPL'', l_type = ''BUY'', l_quantity = 1,
          l_price = 150, l_totalAmount = Some 150, l_createdAt = None\<rparr>,
         \<lparr>l_userId = alice, l_symbol = ''AAPL'', l_type = ''SELL'', l_quantity = 50,
          l_price = 160, l_totalAmount = Some 8000, l_createdAt = Some (day_ms + 5)\<rparr>,
         \<lparr>l_userId = alice, l_symbol = ''AAPL'', l_type = ''HOLD'', l_quantity = 1,
          l_price = 170, l_totalAmount = Some 170, l_createdAt = Some (2 * day_ms)\<rparr>]\<rparr>"

definition demo_lean_malformed :: lean_db where
  "demo_lean_malformed =
     \<lparr>l_users = [alice \<mapsto> \<lparr>lu_startingBalance = Some 100000\<rparr>],
      l_transactions =
        [\<lparr>l_userId = alice, l_symbol = ''AAPL'', l_type = ''BUY'', l_quantity = 1,
          l_price = 150, l_totalAmount = Some 150, l_createdAt = None\<rparr>,
         \<lparr>l_userId = alice, l_symbol = ''AAPL'', l_type = ''BUY'', l_quantity = 1,
          l_price = 0, l_totalAmount = Some 0, l_createdAt = Some 1000\<rparr>,
         \<lparr>l_userId = alice, l_symbol = ''AAPL'', l_type = ''HOLD'', l_quantity = 1,
          l_price = 170, l_totalAmount = Some 170, l_createdAt = Some 2000\<rparr>]\<rparr>"

text \<open>A portfolio of one position with market value \<open>mv\<close> in a total equity of \<open>te\<close>.\<close>

definition single_position :: "real \<Rightarrow> real \<Rightarrow> Portfolio" where
  "single_position mv te =
     \<lparr>pf_balance = te - mv,
      positions =
        [\<lparr>pos_symbol = ''AAPL'', netQty = 1, avgCost = mv, pos_currentPrice = mv,
          marketValue = mv, unrealizedPnL = 0, gainPercent = 0, allocationPercent = 100\<rparr>],
      totalMarketValue = mv, totalUnrealizedPnL = 0, totalEquity = te,
      totalReturn = te - 100000, totalReturnPercent = (te - 100000) / 100000 * 100\<rparr>"

text \<open>A portfolio without positions.\<close>

definition cash_only :: "real \<Rightarrow> Portfolio" where
  "cash_only te =
     \<lparr>pf_balance = te, positions = [], totalMarketValue = 0, totalUnrealizedPnL = 0,
      totalEquity = te, totalReturn = te - 100000,
      totalReturnPercent = (te - 100000) / 100000 * 100\<rparr>"

text \<open>A store after two purchases on two days: BUY 10 AAPL at 100, then BUY 10 AAPL at 110.\<close>

definition demo_db_two_buys :: db where
  "demo_db_two_buys =
     \<lparr>users = [alice \<mapsto> \<lparr>balance = 97900, startingBalance = 100000\<rparr>],
      transactions =
        [\<lparr>txn_id = ''t1'', userId = alice, symbol = ''AAPL'', txn_type = ''BUY'',
          quantity = 10, price = 100, totalAmount = 1000, createdAt = 1000\<rparr>,
         \<lparr>txn_id = ''t2'', userId = alice, symbol = ''AAPL'', txn_type = ''BUY'',
          quantity = 10, price = 110, totalAmount = 1100, createdAt = day_ms + 1000\<rparr>]\<rparr>"

section \<open>Properties\<close>

text \<open>The definitions of the concrete world and stores, for evaluation.\<close>

lemmas demo_defs =
  demo_trades_def demo_db_def demo_db_after_buy_def demo_db_reopen_def reopen_log_def
  demo_lean_mixed_def demo_lean_malformed_def demo_db_two_buys_def alice_def demo_world_def
  quote_def iso_1970_def day_ms_def strip_spaces_def ascii_upper_def

subsection \<open>Trade execution\<close>

lemma executeTrade_abort:
  "fst (executeTrade w s uid symb type qty) = Inl e \<Longrightarrow>
   snd (executeTrade w s uid symb type qty) = s"
  unfolding executeTrade_def Let_def
  by (auto split: option.splits if_splits)

lemma executeTrade_cases:
  assumes "executeTrade w s uid symb type qty = (r, s')"
  shows "(\<exists>e. r = Inl e \<and> s' = s) \<or>
     (\<exists>oid u t d. r = Inr d \<and> new_ObjectId w uid = Some oid \<and> users s oid = Some u \<and>
        userId t = oid \<and>
        s' = s\<lparr>users := (users s)(oid \<mapsto> u\<lparr>balance := balance u + cash_effect t\<rparr>),
              transactions := transactions s @ [t]\<rparr>)"
proof (cases r)
  case (Inl e)
  with assms executeTrade_abort[of w s uid symb type qty e] show ?thesis by simp
next
  case (Inr d)
  with assms obtain oid u p where h: "new_ObjectId w uid = Some oid" "users s oid = Some u"
    "type = ''BUY'' \<or> type = ''SELL''"
    "s' = s\<lparr>users := (users s)(oid \<mapsto>
               u\<lparr>balance := balance u + (if type = ''SELL'' then p * qty else - (p * qty))\<rparr>),
            transactions := transactions s @
              [\<lparr>txn_id = fresh_id w, userId = oid, symbol = trim w (toUpperCase w symb),
                txn_type = type, quantity = qty, price = p, totalAmount = p * qty,
                createdAt = Date_now w\<rparr>]\<rparr>"
    unfolding executeTrade_def Let_def
    by (auto split: option.splits if_splits)
  let ?t = "\<lparr>txn_id = fresh_id w, userId = oid, symbol = trim w (toUpperCase w symb),
             txn_type = type, quantity = qty, price = p, totalAmount = p * qty,
             createdAt = Date_now w\<rparr>"
  have "cash_effect ?t = (if type = ''SELL'' then p * qty else - (p * qty))"
    using h(3) by (auto simp: cash_effect_def)
  with h Inr show ?thesis
    by (intro disjI2 exI[of _ oid] exI[of _ u] exI[of _ ?t] exI[of _ d]) simp
qed

lemma net_cash_append:
  "net_cash uid (txns @ [t]) = net_cash uid txns + (if userId t = uid then cash_effect t else 0)"
  by (simp add: net_cash_def)

lemma executeTrade_ledger_ok:
  assumes "ledger_ok s oid sb"
  shows "ledger_ok (snd (executeTrade w s uid symb type qty)) oid sb"
proof -
  obtain r s' where e: "executeTrade w s uid symb type qty = (r, s')"
    by (cases "executeTrade w s uid symb type qty")
  from executeTrade_cases[OF e] show ?thesis
  proof
    assume "\<exists>e. r = Inl e \<and> s' = s"
    with e assms show ?thesis by auto
  next
    assume "\<exists>oid u t d. r = Inr d \<and> new_ObjectId w uid = Some oid \<and> users s oid = Some u \<and>
        userId t = oid \<and>
        s' = s\<lparr>users := (users s)(oid \<mapsto> u\<lparr>balance := balance u + cash_effect t\<rparr>),
              transactions := transactions s @ [t]\<rparr>"
    then obtain oid' u t where h: "users s oid' = Some u" "userId t = oid'"
       "s' = s\<lparr>users := (users s)(oid' \<mapsto> u\<lparr>balance := balance u + cash_effect t\<rparr>),
              transactions := transactions s @ [t]\<rparr>" by blast
    show ?thesis using assms h e
      by (cases "oid' = oid") (auto simp: ledger_ok_def net_cash_append split: option.splits)
  qed
qed

lemma run_trades_ledger_ok:
  "ledger_ok s oid sb \<Longrightarrow> ledger_ok (run_trades s rs) oid sb"
  by (induction s rs rule: run_trades.induct) (auto intro: executeTrade_ledger_ok)

lemma netQuantity_loop_sum:
  "netQuantity_loop n txns = n + sum_list (map signed_quantity txns)"
  by (induction n txns rule: netQuantity_loop.induct) (auto simp: signed_quantity_def)

text \<open>
  Claim C1 (ledger consistency). An account that starts with its cash balance equal to its
  starting balance and no transactions of its own, in a store that changes only by calls
  of \<^verbatim>\<open>executeTrade\<close> (of any users, in any worlds), has after every call a cash
  balance equal to the starting balance plus the sum of the signed cash effects of the
  user's committed transactions (plus the amount of a SELL, minus that of a BUY); and a
  call that fails returns the store, balance and log, as it was.
\<close>

theorem ledger_consistency:
  "(users s0 oid = Some u0 \<and> balance u0 = startingBalance u0 \<and>
    filter (\<lambda>t. userId t = oid) (transactions s0) = [] \<longrightarrow>
      ledger_ok (run_trades s0 (take n rs)) oid (startingBalance u0)) \<and>
   (fst (executeTrade w s uid symb type qty) = Inl e \<longrightarrow>
      snd (executeTrade w s uid symb type qty) = s)"
proof (intro conjI impI)
  assume "users s0 oid = Some u0 \<and> balance u0 = startingBalance u0 \<and>
    filter (\<lambda>t. userId t = oid) (transactions s0) = []"
  then have "ledger_ok s0 oid (startingBalance u0)" by (simp add: ledger_ok_def net_cash_def)
  then show "ledger_ok (run_trades s0 (take n rs)) oid (startingBalance u0)"
    by (rule run_trades_ledger_ok)
next
  assume "fst (executeTrade w s uid symb type qty) = Inl e"
  then show "snd (executeTrade w s uid symb type qty) = s" by (rule executeTrade_abort)
qed


theorem ledger_consistency_witness:
  "users demo_db alice = Some \<lparr>balance = 100000, startingBalance = 100000\<rparr> \<and>
   filter (\<lambda>t. userId t = alice) (transactions demo_db) = [] \<and>
   ledger_ok (run_trades demo_db (take 2 demo_trades)) alice 100000 \<and>
   users (run_trades demo_db demo_trades) alice = Some \<lparr>balance = 93000, startingBalance = 100000\<rparr> \<and>
   net_cash alice (transactions (run_trades demo_db demo_trades)) = - 7000 \<and>
   fst (executeTrade (demo_world 150 1000 ''t1'') demo_db alice ''AAPL'' ''BUY'' 1000) =
     Inl (Error ''Insufficient balance'') \<and>
   snd (executeTrade (demo_world 150 1000 ''t1'') demo_db alice ''AAPL'' ''BUY'' 1000) = demo_db"
proof -
  have u: "users demo_db alice = Some \<lparr>balance = 100000, startingBalance = 100000\<rparr>"
    by (simp add: demo_defs)
  have e: "filter (\<lambda>t. userId t = alice) (transactions demo_db) = []"
    by (simp add: demo_defs)
  have f: "fst (executeTrade (demo_world 150 1000 ''t1'') demo_db alice ''AAPL'' ''BUY'' 1000) =
     Inl (Error ''Insufficient balance'')"
    by (simp add: executeTrade_def Let_def demo_defs)
  have r: "users (run_trades demo_db demo_trades) alice = Some \<lparr>balance = 93000, startingBalance = 100000\<rparr>"
    by (simp add: executeTrade_def Let_def Transaction_find_symbol_def demo_defs)
  have n: "net_cash alice (transactions (run_trades demo_db demo_trades)) = - 7000"
    by (simp add: executeTrade_def Let_def Transaction_find_symbol_def net_cash_def cash_effect_def demo_defs)
  note t = ledger_consistency [of demo_db alice "\<lparr>balance = 100000, startingBalance = 100000\<rparr>" 2
      demo_trades "demo_world 150 1000 ''t1''" demo_db alice "''AAPL''" "''BUY''" 1000
      "Error ''Insufficient balance''"]
  from t u e f r n show ?thesis by simp
qed

text \<open>
  Claim C2 (no overdraft). A BUY of a valid request (non-empty user id and symbol,
  quantity at least one, a price from the oracle, an existing account) whose total
  amount, price times quantity, exceeds the cash balance fails with
  \<^verbatim>\<open>Insufficient balance\<close> and leaves the store as it was.
\<close>

theorem no_overdraft:
  assumes "uid \<noteq> []" and "trim w (toUpperCase w symb) \<noteq> []" and "1 \<le> qty"
    and "success (getStockDetails w (trim w (toUpperCase w symb)))"
    and "currentPrice (getStockDetails w (trim w (toUpperCase w symb))) = Some p" and "p \<noteq> 0"
    and "new_ObjectId w uid = Some oid" and "users s oid = Some u"
    and "balance u < p * qty"
  shows "executeTrade w s uid symb ''BUY'' qty = (Inl (Error ''Insufficient balance''), s)"
  using assms unfolding executeTrade_def Let_def by simp

theorem no_overdraft_witness:
  "alice \<noteq> [] \<and> 1 \<le> (1000 :: real) \<and> users demo_db alice = Some \<lparr>balance = 100000, startingBalance = 100000\<rparr> \<and>
   (100000 :: real) < 150 * 1000 \<and>
   executeTrade (demo_world 150 1000 ''t1'') demo_db alice ''aapl '' ''BUY'' 1000 =
     (Inl (Error ''Insufficient balance''), demo_db)"
proof -
  let ?w = "demo_world 150 1000 ''t1''"
  have s: "trim ?w (toUpperCase ?w ''aapl '') = ''AAPL''" by (simp add: demo_defs)
  have u: "users demo_db alice = Some \<lparr>balance = 100000, startingBalance = 100000\<rparr>"
    by (simp add: demo_defs)
  have "executeTrade ?w demo_db alice ''aapl '' ''BUY'' 1000 =
     (Inl (Error ''Insufficient balance''), demo_db)"
    by (rule no_overdraft [where p = 150 and oid = alice and u = "\<lparr>balance = 100000, startingBalance = 100000\<rparr>"])
       (simp_all add: s u, simp_all add: demo_defs)
  with u show ?thesis by (simp add: alice_def)
qed


text \<open>
  Claim C3 (no oversell). For a SELL of a valid request, the net quantity the code
  computes is the signed sum of the quantities of the user's committed transactions for
  the symbol (BUY positive, SELL negative). When it is less than the quantity sold the
  trade fails with \<^verbatim>\<open>Insufficient holdings\<close> and the store is as it was; otherwise, and
  so when it equals the quantity, the trade commits: the balance is credited with the
  total amount and the transaction is appended. (The credited balance has to pass the
  schema's check \<^verbatim>\<open>min: 0\<close>, which it does for a positive price and a balance that is
  not negative.)
\<close>

theorem no_oversell:
  assumes "uid \<noteq> []" and "trim w (toUpperCase w symb) = sy" and "sy \<noteq> []" and "1 \<le> qty"
    and "success (getStockDetails w sy)"
    and "currentPrice (getStockDetails w sy) = Some p" and "p \<noteq> 0"
    and "new_ObjectId w uid = Some oid" and "users s oid = Some u"
    and "held = sum_list (map signed_quantity
                  (filter (\<lambda>t. userId t = oid \<and> symbol t = sy) (transactions s)))"
  shows "netQuantity_loop 0 (Transaction_find_symbol s oid sy) = held \<and>
    (held < qty \<longrightarrow>
       executeTrade w s uid symb ''SELL'' qty = (Inl (Error ''Insufficient holdings''), s)) \<and>
    (qty \<le> held \<and> 0 \<le> balance u + p * qty \<longrightarrow>
       executeTrade w s uid symb ''SELL'' qty =
         (Inr \<lparr>r_transactionId = fresh_id w, r_symbol = sy, r_type = ''SELL'', r_quantity = qty,
               r_price = p, r_totalAmount = p * qty, r_newBalance = balance u + p * qty\<rparr>,
          s\<lparr>users := (users s)(oid \<mapsto> u\<lparr>balance := balance u + p * qty\<rparr>),
            transactions := transactions s @
              [\<lparr>txn_id = fresh_id w, userId = oid, symbol = sy, txn_type = ''SELL'',
                quantity = qty, price = p, totalAmount = p * qty, createdAt = Date_now w\<rparr>]\<rparr>))"
proof -
  have n: "netQuantity_loop 0 (Transaction_find_symbol s oid sy) = held"
    using assms(10) by (simp add: netQuantity_loop_sum Transaction_find_symbol_def)
  show ?thesis
    using assms(1-9) n unfolding executeTrade_def Let_def by simp
qed

theorem no_oversell_witness:
  "sum_list (map signed_quantity
      (filter (\<lambda>t. userId t = alice \<and> symbol t = ''AAPL'') (transactions demo_db_after_buy))) = 100 \<and>
   executeTrade (demo_world 160 2000 ''t2'') demo_db_after_buy alice ''aapl'' ''SELL'' 101 =
     (Inl (Error ''Insufficient holdings''), demo_db_after_buy) \<and>
   fst (executeTrade (demo_world 160 2000 ''t2'') demo_db_after_buy alice ''aapl'' ''SELL'' 100) =
     Inr \<lparr>r_transactionId = ''t2'', r_symbol = ''AAPL'', r_type = ''SELL'', r_quantity = 100,
          r_price = 160, r_totalAmount = 16000, r_newBalance = 101000\<rparr>"
proof -
  let ?w = "demo_world 160 2000 ''t2''"
  let ?u = "\<lparr>balance = 85000, startingBalance = 100000\<rparr>"
  have h: "sum_list (map signed_quantity
      (filter (\<lambda>t. userId t = alice \<and> symbol t = ''AAPL'') (transactions demo_db_after_buy))) = 100"
    by (simp add: demo_defs signed_quantity_def)
  have pre: "alice \<noteq> []" "trim ?w (toUpperCase ?w ''aapl'') = ''AAPL''" "''AAPL'' \<noteq> []"
    "success (getStockDetails ?w ''AAPL'')" "currentPrice (getStockDetails ?w ''AAPL'') = Some 160"
    "new_ObjectId ?w alice = Some alice" "users demo_db_after_buy alice = Some ?u"
    by (simp_all add: demo_defs)
  have a: "executeTrade ?w demo_db_after_buy alice ''aapl'' ''SELL'' 101 =
     (Inl (Error ''Insufficient holdings''), demo_db_after_buy)"
    using no_oversell [OF pre(1-3) _ pre(4,5) _ pre(6,7) h [symmetric], of 101] by simp
  have b: "fst (executeTrade ?w demo_db_after_buy alice ''aapl'' ''SELL'' 100) =
     Inr \<lparr>r_transactionId = ''t2'', r_symbol = ''AAPL'', r_type = ''SELL'', r_quantity = 100,
          r_price = 160, r_totalAmount = 16000, r_newBalance = 101000\<rparr>"
    using no_oversell [OF pre(1-3) _ pre(4,5) _ pre(6,7) h [symmetric], of 100]
    by (simp add: demo_world_def)
  from h a b show ?thesis by simp
qed

subsection \<open>Position replay\<close>

lemma replay_step_close:
  assumes "txn_type txn = ''SELL''" and "map_of symbolState (symbol txn) = Some state"
    and "st_quantity state - quantity txn \<le> 0"
  shows "replay_step symbolState txn = AList.delete (symbol txn) symbolState"
  using assms by (simp add: replay_step_def Let_def)

lemma replay_step_open:
  assumes "txn_type txn = ''BUY''" and "map_of symbolState (symbol txn) = None"
  shows "map_of (replay_step symbolState txn) (symbol txn) =
           Some \<lparr>st_quantity = quantity txn, st_totalCost = totalAmount txn\<rparr>"
  using assms by (simp add: replay_step_def update_conv')

text \<open>
  Claim C5 (a full close resets the cost basis). In the replay, a SELL that brings the
  running quantity of a symbol to zero or below deletes the symbol's state, quantity and
  total cost; a BUY of a symbol without state starts from the BUY's own quantity and
  amount alone. So BUY 10 at 10, SELL 10 at 15, BUY 5 at 20 replays to one active
  symbol with net quantity 5 and average cost 20.
\<close>

theorem full_close_resets_cost_basis:
  "(txn_type sell = ''SELL'' \<and> map_of symbolState (symbol sell) = Some state \<and>
      st_quantity state - quantity sell \<le> 0 \<longrightarrow>
        map_of (replay_step symbolState sell) (symbol sell) = None \<and>
        replay_step symbolState sell = AList.delete (symbol sell) symbolState) \<and>
   (txn_type buy = ''BUY'' \<and> map_of symbolState' (symbol buy) = None \<longrightarrow>
        map_of (replay_step symbolState' buy) (symbol buy) =
          Some \<lparr>st_quantity = quantity buy, st_totalCost = totalAmount buy\<rparr>) \<and>
   activeSymbols_of (replay (reopen_log uid symb i1 i2 i3 t1 t2 t3)) =
     [\<lparr>a_symbol = symb, a_netQty = 5, a_avgCost = 20\<rparr>]"
proof (intro conjI impI)
  assume a: "txn_type sell = ''SELL'' \<and> map_of symbolState (symbol sell) = Some state \<and>
      st_quantity state - quantity sell \<le> 0"
  then show d: "replay_step symbolState sell = AList.delete (symbol sell) symbolState"
    by (simp add: replay_step_close)
  show "map_of (replay_step symbolState sell) (symbol sell) = None"
    by (simp add: d delete_conv')
next
  assume "txn_type buy = ''BUY'' \<and> map_of symbolState' (symbol buy) = None"
  then show "map_of (replay_step symbolState' buy) (symbol buy) =
          Some \<lparr>st_quantity = quantity buy, st_totalCost = totalAmount buy\<rparr>"
    by (simp add: replay_step_open)
next
  show "activeSymbols_of (replay (reopen_log uid symb i1 i2 i3 t1 t2 t3)) =
     [\<lparr>a_symbol = symb, a_netQty = 5, a_avgCost = 20\<rparr>]"
    by (simp add: replay_def reopen_log_def replay_step_def Let_def)
qed

theorem full_close_resets_cost_basis_witness:
  "replay (take 1 (reopen_log alice ''AAPL'' ''t1'' ''t2'' ''t3'' 1000 2000 3000)) =
     [(''AAPL'', \<lparr>st_quantity = 10, st_totalCost = 100\<rparr>)] \<and>
   replay (take 2 (reopen_log alice ''AAPL'' ''t1'' ''t2'' ''t3'' 1000 2000 3000)) = [] \<and>
   replay (reopen_log alice ''AAPL'' ''t1'' ''t2'' ''t3'' 1000 2000 3000) =
     [(''AAPL'', \<lparr>st_quantity = 5, st_totalCost = 100\<rparr>)] \<and>
   activeSymbols_of (replay (reopen_log alice ''AAPL'' ''t1'' ''t2'' ''t3'' 1000 2000 3000)) =
     [\<lparr>a_symbol = ''AAPL'', a_netQty = 5, a_avgCost = 20\<rparr>] \<and>
   map_of (replay_step [(''AAPL'', \<lparr>st_quantity = 10, st_totalCost = 100\<rparr>)]
       (reopen_log alice ''AAPL'' ''t1'' ''t2'' ''t3'' 1000 2000 3000 ! 1)) ''AAPL'' = None \<and>
   map_of (replay_step []
       (reopen_log alice ''AAPL'' ''t1'' ''t2'' ''t3'' 1000 2000 3000 ! 2)) ''AAPL'' =
     Some \<lparr>st_quantity = 5, st_totalCost = 100\<rparr> \<and>
   getUserPortfolio (demo_world 25 4000 ''t4'') demo_db_reopen alice =
     Inr \<lparr>pf_balance = 99950,
          positions = [\<lparr>pos_symbol = ''AAPL'', netQty = 5, avgCost = 20, pos_currentPrice = 25,
                        marketValue = 125, unrealizedPnL = 25, gainPercent = 25,
                        allocationPercent = 100\<rparr>],
          totalMarketValue = 125, totalUnrealizedPnL = 25, totalEquity = 100075,
          totalReturn = 75, totalReturnPercent = 3 / 40\<rparr>"
proof -
  let ?log = "reopen_log alice ''AAPL'' ''t1'' ''t2'' ''t3'' 1000 2000 3000"
  note t = full_close_resets_cost_basis [of "?log ! 1"
      "[(''AAPL'', \<lparr>st_quantity = 10, st_totalCost = 100\<rparr>)]"
      "\<lparr>st_quantity = 10, st_totalCost = 100\<rparr>" "?log ! 2" "[]"
      alice "''AAPL''" "''t1''" "''t2''" "''t3''" 1000 2000 3000]
  have r1: "replay (take 1 ?log) = [(''AAPL'', \<lparr>st_quantity = 10, st_totalCost = 100\<rparr>)]"
    by (simp add: replay_def reopen_log_def replay_step_def Let_def)
  have r2: "replay (take 2 ?log) = []"
    by (simp add: replay_def reopen_log_def replay_step_def Let_def)
  have r3: "replay ?log = [(''AAPL'', \<lparr>st_quantity = 5, st_totalCost = 100\<rparr>)]"
    by (simp add: replay_def reopen_log_def replay_step_def Let_def)
  have p: "getUserPortfolio (demo_world 25 4000 ''t4'') demo_db_reopen alice =
     Inr \<lparr>pf_balance = 99950,
          positions = [\<lparr>pos_symbol = ''AAPL'', netQty = 5, avgCost = 20, pos_currentPrice = 25,
                        marketValue = 125, unrealizedPnL = 25, gainPercent = 25,
                        allocationPercent = 100\<rparr>],
          totalMarketValue = 125, totalUnrealizedPnL = 25, totalEquity = 100075,
          totalReturn = 75, totalReturnPercent = 3 / 40\<rparr>"
    by (simp add: getUserPortfolio_def Transaction_find_sorted_def or_default_def Let_def
        replay_def replay_step_def demo_defs)
  have h: "txn_type (?log ! 1) = ''SELL''" "symbol (?log ! 1) = ''AAPL''"
    "quantity (?log ! 1) = 10" "txn_type (?log ! 2) = ''BUY''" "symbol (?log ! 2) = ''AAPL''"
    "quantity (?log ! 2) = 5" "totalAmount (?log ! 2) = 100"
    by (simp_all add: reopen_log_def)
  from t h r1 r2 r3 p show ?thesis by simp
qed

subsection \<open>Equity time series\<close>

lemma equity_step_malformed:
  assumes "\<not> valid_txn txn"
  shows "equity_step w st txn = st"
proof (cases "l_createdAt txn")
  case None
  then show ?thesis by (simp add: equity_step_def)
next
  case created: (Some created)
  show ?thesis
  proof (cases "l_totalAmount txn")
    case None
    with created show ?thesis by (simp add: equity_step_def)
  next
    case (Some amount)
    with created assms have "amount \<le> 0 \<or> (l_type txn \<noteq> ''BUY'' \<and> l_type txn \<noteq> ''SELL'')"
      by (simp add: valid_txn_def not_less)
    then show ?thesis
    proof
      assume "amount \<le> 0"
      with created Some show ?thesis by (simp add: equity_step_def)
    next
      assume "l_type txn \<noteq> ''BUY'' \<and> l_type txn \<noteq> ''SELL''"
      with created Some show ?thesis by (simp add: equity_step_def)
    qed
  qed
qed

lemma pnl_step_malformed:
  assumes "\<not> valid_txn txn"
  shows "pnl_step w sb st txn = st"
proof (cases "l_createdAt txn")
  case None
  then show ?thesis by (simp add: pnl_step_def)
next
  case created: (Some created)
  show ?thesis
  proof (cases "l_totalAmount txn")
    case None
    with created show ?thesis by (simp add: pnl_step_def)
  next
    case (Some amount)
    with created assms have "amount \<le> 0 \<or> (l_type txn \<noteq> ''BUY'' \<and> l_type txn \<noteq> ''SELL'')"
      by (simp add: valid_txn_def not_less)
    then show ?thesis
    proof
      assume "amount \<le> 0"
      with created Some show ?thesis by (simp add: pnl_step_def)
    next
      assume "l_type txn \<noteq> ''BUY'' \<and> l_type txn \<noteq> ''SELL''"
      with created Some show ?thesis by (simp add: pnl_step_def)
    qed
  qed
qed

lemma valid_txnE:
  assumes "valid_txn txn"
  obtains created amount where "l_createdAt txn = Some created" and "l_totalAmount txn = Some amount"
    and "0 < amount" and "l_type txn = ''BUY'' \<or> l_type txn = ''SELL''"
proof -
  from assms obtain created where c: "l_createdAt txn = Some created"
    by (cases "l_createdAt txn") (simp_all add: valid_txn_def)
  from assms obtain amount where a: "l_totalAmount txn = Some amount"
    by (cases "l_totalAmount txn") (simp_all add: valid_txn_def)
  from assms a have p: "0 < amount" by (simp add: valid_txn_def)
  from assms have t: "l_type txn = ''BUY'' \<or> l_type txn = ''SELL''" by (simp add: valid_txn_def)
  from c a p t that show thesis by blast
qed

lemma equity_step_valid:
  assumes "valid_txn txn"
  shows "map date (points (equity_step w st txn)) =
     map date (points st) @ [toISOString w (the (l_createdAt txn))]"
proof -
  from assms obtain created amount where h: "l_createdAt txn = Some created"
    "l_totalAmount txn = Some amount" "0 < amount" "l_type txn = ''BUY'' \<or> l_type txn = ''SELL''"
    by (rule valid_txnE)
  obtain c hs lp where a: "apply_txn (cash st) (holdings st) (lastPrice st) txn amount = (c, hs, lp)"
    by (cases "apply_txn (cash st) (holdings st) (lastPrice st) txn amount")
  have ne: "\<not> (l_type txn \<noteq> ''BUY'' \<and> l_type txn \<noteq> ''SELL'')" using h(4) by blast
  show ?thesis unfolding equity_step_def using h(1-3) a ne by simp
qed

lemma pnl_step_valid:
  assumes "valid_txn txn"
  shows "map pnl_date (pnlData (pnl_step w sb st txn)) =
     map pnl_date (pnlData st) @ [toISOString w (the (l_createdAt txn))]"
proof -
  from assms obtain created amount where h: "l_createdAt txn = Some created"
    "l_totalAmount txn = Some amount" "0 < amount" "l_type txn = ''BUY'' \<or> l_type txn = ''SELL''"
    by (rule valid_txnE)
  obtain c hs lp where a:
    "apply_txn (g_cash st) (g_holdings st) (g_lastPrice st) txn amount = (c, hs, lp)"
    by (cases "apply_txn (g_cash st) (g_holdings st) (g_lastPrice st) txn amount")
  have ne: "\<not> (l_type txn \<noteq> ''BUY'' \<and> l_type txn \<noteq> ''SELL'')" using h(4) by blast
  show ?thesis unfolding pnl_step_def using h(1-3) a ne by simp
qed

lemma equity_loop_dates:
  "map date (points (foldl (equity_step w) st txns)) =
     map date (points st) @
     map (\<lambda>t. toISOString w (the (l_createdAt t))) (filter valid_txn txns)"
proof (induction txns arbitrary: st)
  case Nil
  show ?case by simp
next
  case (Cons txn txns)
  show ?case
  proof (cases "valid_txn txn")
    case True
    then show ?thesis using Cons.IH [of "equity_step w st txn"]
      by (simp add: equity_step_valid)
  next
    case False
    then show ?thesis using Cons.IH [of st]
      by (simp add: equity_step_malformed)
  qed
qed

lemma pnl_loop_dates:
  "map pnl_date (pnlData (foldl (pnl_step w sb) st txns)) =
     map pnl_date (pnlData st) @
     map (\<lambda>t. toISOString w (the (l_createdAt t))) (filter valid_txn txns)"
proof (induction txns arbitrary: st)
  case Nil
  show ?case by simp
next
  case (Cons txn txns)
  show ?case
  proof (cases "valid_txn txn")
    case True
    then show ?thesis using Cons.IH [of "pnl_step w sb st txn"]
      by (simp add: pnl_step_valid)
  next
    case False
    then show ?thesis using Cons.IH [of st]
      by (simp add: pnl_step_malformed)
  qed
qed

lemma sorted_map_Some: "sorted (map Some ys) = sorted ys"
  by (induction ys) simp_all

lemma sorted_map_the:
  assumes "sorted (map f xs)" and "\<forall>x \<in> set xs. f x \<noteq> None"
  shows "sorted (map (\<lambda>x. the (f x)) xs)"
proof -
  have "map f xs = map Some (map (\<lambda>x. the (f x)) xs)"
    using assms(2) by (induction xs) simp_all
  with assms(1) have "sorted (map Some (map (\<lambda>x. the (f x)) xs))" by simp
  then show ?thesis by (simp only: sorted_map_Some)
qed

lemma valid_createdAt_sorted:
  "sorted (map (\<lambda>t. the (l_createdAt t)) (filter valid_txn (lean_find_sorted s oid)))"
proof -
  have "sorted (map l_createdAt (lean_find_sorted s oid))"
    by (simp add: lean_find_sorted_def)
  then have "sorted (map l_createdAt (filter valid_txn (lean_find_sorted s oid)))"
    by (rule sorted_filter)
  then show ?thesis
    by (rule sorted_map_the) (simp add: valid_txn_def)
qed

lemma getEquityTimeSeries_nonempty:
  assumes "new_ObjectId w uid = Some oid" and "l_users s oid = Some u"
    and "lean_find_sorted s oid \<noteq> []"
  shows "getEquityTimeSeries w s uid =
     Inr (points (foldl (equity_step w)
       \<lparr>cash = (case lu_startingBalance u of Some b \<Rightarrow> b | None \<Rightarrow> 100000),
        holdings = [], lastPrice = [], points = []\<rparr> (lean_find_sorted s oid)))"
  using assms by (simp add: getEquityTimeSeries_def Let_def)

lemma GET_nonempty:
  assumes "new_ObjectId w uid = Some oid" and "l_users s oid = Some u" and "uid \<noteq> []"
    and "lean_find_sorted s oid \<noteq> []"
    and "sb = (case lu_startingBalance u of Some b \<Rightarrow> b | None \<Rightarrow> 100000)"
  shows "GET w s (Some uid) =
     Json_pnl (pnlData (foldl (pnl_step w sb)
       \<lparr>g_cash = sb, g_holdings = [], g_lastPrice = [], pnlData = []\<rparr> (lean_find_sorted s oid)))"
  using assms by (simp add: GET_def Let_def)

lemma map_eq_length: "map f xs = map g ys \<Longrightarrow> length xs = length ys"
  by (metis length_map)


text \<open>
  Claim C4 (one equity point per valid transaction), as amended. For every user with a
  non-empty transaction log, read in ascending order of \<^verbatim>\<open>createdAt\<close>, both equity
  builders emit exactly one point per valid transaction, in the order of the log, dated
  with the transaction's \<^verbatim>\<open>createdAt\<close>; the timestamps of the points do not decrease;
  a malformed transaction leaves the whole loop state (cash, holdings, last prices,
  points) as it was; and a log of \<open>N\<close> valid transactions and no malformed one gives
  exactly \<open>N\<close> points. (For an empty log the builders emit one synthetic point and not
  zero points: the counterexample below.)
\<close>

theorem equity_points_per_valid_transaction:
  assumes "new_ObjectId w uid = Some oid" and "l_users s oid = Some u" and "uid \<noteq> []"
    and "txns = lean_find_sorted s oid" and "txns \<noteq> []"
  shows "(\<exists>pts. getEquityTimeSeries w s uid = Inr pts \<and>
            map date pts = map (\<lambda>t. toISOString w (the (l_createdAt t))) (filter valid_txn txns) \<and>
            length pts = length (filter valid_txn txns) \<and>
            (mono (toISOString w) \<longrightarrow> sorted (map date pts))) \<and>
         (\<exists>ps. GET w s (Some uid) = Json_pnl ps \<and>
            map pnl_date ps = map (\<lambda>t. toISOString w (the (l_createdAt t))) (filter valid_txn txns) \<and>
            length ps = length (filter valid_txn txns)) \<and>
         sorted (map (\<lambda>t. the (l_createdAt t)) (filter valid_txn txns)) \<and>
         (\<not> valid_txn txn \<longrightarrow> equity_step w st txn = st \<and> pnl_step w sb gst txn = gst) \<and>
         ((\<forall>t \<in> set txns. valid_txn t) \<longrightarrow>
            (\<exists>pts. getEquityTimeSeries w s uid = Inr pts \<and> length pts = length txns))"
proof -
  let ?ts = "map (\<lambda>t. the (l_createdAt t)) (filter valid_txn txns)"
  let ?ds = "map (\<lambda>t. toISOString w (the (l_createdAt t))) (filter valid_txn txns)"
  let ?pts = "points (foldl (equity_step w)
       \<lparr>cash = (case lu_startingBalance u of Some b \<Rightarrow> b | None \<Rightarrow> 100000),
        holdings = [], lastPrice = [], points = []\<rparr> txns)"
  let ?sb = "case lu_startingBalance u of Some b \<Rightarrow> b | None \<Rightarrow> 100000"
  let ?ps = "pnlData (foldl (pnl_step w ?sb)
       \<lparr>g_cash = ?sb, g_holdings = [], g_lastPrice = [], pnlData = []\<rparr> txns)"
  have e: "getEquityTimeSeries w s uid = Inr ?pts"
    using assms getEquityTimeSeries_nonempty [of w uid oid s u] by simp
  have d: "map date ?pts = ?ds"
    by (simp add: equity_loop_dates)
  have l: "length ?pts = length (filter valid_txn txns)"
    using map_eq_length [OF d] .
  have srt: "sorted ?ts"
    using assms(4) valid_createdAt_sorted [of s oid] by simp
  have m: "mono (toISOString w) \<longrightarrow> sorted (map date ?pts)"
  proof
    assume "mono (toISOString w)"
    then have "sorted (map (toISOString w) ?ts)"
      using srt by (simp add: sorted_map mono_def sorted_wrt_iff_nth_less sorted_iff_nth_mono)
    then show "sorted (map date ?pts)" by (simp add: d comp_def)
  qed
  have g: "GET w s (Some uid) = Json_pnl ?ps"
    using assms GET_nonempty [of w uid oid s u ?sb] by simp
  have gd: "map pnl_date ?ps = ?ds"
    by (simp add: pnl_loop_dates)
  have gl: "length ?ps = length (filter valid_txn txns)"
    using map_eq_length [OF gd] .
  have all: "(\<forall>t \<in> set txns. valid_txn t) \<longrightarrow>
            (\<exists>pts. getEquityTimeSeries w s uid = Inr pts \<and> length pts = length txns)"
    using e l by auto
  have skip: "\<not> valid_txn txn \<longrightarrow> equity_step w st txn = st \<and> pnl_step w sb gst txn = gst"
    by (simp add: equity_step_malformed pnl_step_malformed)
  from e d l m g gd gl srt all skip show ?thesis by blast
qed


lemma mono_iso_1970: "mono iso_1970"
  unfolding mono_def iso_1970_def day_ms_def
  by (auto simp: less_eq_char_def less_char_def)

theorem equity_points_per_valid_transaction_witness:
  "new_ObjectId (demo_world 150 5000 ''t'') alice = Some alice \<and>
   l_users demo_lean_mixed alice = Some \<lparr>lu_startingBalance = Some 100000\<rparr> \<and>
   alice \<noteq> [] \<and>
   lean_find_sorted demo_lean_mixed alice \<noteq> [] \<and>
   length (filter valid_txn (lean_find_sorted demo_lean_mixed alice)) = 2 \<and>
   mono (toISOString (demo_world 150 5000 ''t'')) \<and>
   (\<exists>pts. getEquityTimeSeries (demo_world 150 5000 ''t'') demo_lean_mixed alice = Inr pts \<and>
      length pts = 2 \<and> sorted (map date pts)) \<and>
   getEquityTimeSeries (demo_world 150 5000 ''t'') demo_lean_mixed alice =
     Inr [\<lparr>date = ''1970-01-01T00:00:00.000Z'', equity = 100000\<rparr>,
          \<lparr>date = ''1970-01-02T00:00:00.000Z'', equity = 101000\<rparr>] \<and>
   (\<exists>ps. GET (demo_world 150 5000 ''t'') demo_lean_mixed (Some alice) = Json_pnl ps \<and> length ps = 2) \<and>
   \<not> valid_txn (l_transactions demo_lean_mixed ! 3) \<and>
   equity_step (demo_world 150 5000 ''t'')
     \<lparr>cash = 1, holdings = [], lastPrice = [], points = []\<rparr> (l_transactions demo_lean_mixed ! 3) =
     \<lparr>cash = 1, holdings = [], lastPrice = [], points = []\<rparr> \<and>
   list_all valid_txn (lean_find_sorted (lean_db_of demo_db_after_buy) alice) \<and>
   (\<exists>pts. getEquityTimeSeries (demo_world 150 5000 ''t'') (lean_db_of demo_db_after_buy) alice = Inr pts \<and>
      length pts = 1)"
proof -
  let ?w = "demo_world 150 5000 ''t''"
  let ?u = "\<lparr>lu_startingBalance = Some 100000\<rparr>"
  have h: "new_ObjectId ?w alice = Some alice" "l_users demo_lean_mixed alice = Some ?u"
    "alice \<noteq> []" "l_users (lean_db_of demo_db_after_buy) alice = Some ?u"
    by (simp_all add: demo_defs lean_db_of_def)
  have q: "lean_find_sorted demo_lean_mixed alice =
      [l_transactions demo_lean_mixed ! 1, l_transactions demo_lean_mixed ! 0,
       l_transactions demo_lean_mixed ! 2, l_transactions demo_lean_mixed ! 3]"
    by (simp add: lean_find_sorted_def demo_defs)
  have v: "filter valid_txn (lean_find_sorted demo_lean_mixed alice) =
      [l_transactions demo_lean_mixed ! 0, l_transactions demo_lean_mixed ! 2]"
    unfolding q by (simp add: valid_txn_def demo_defs)
  have q': "lean_find_sorted (lean_db_of demo_db_after_buy) alice =
      [lean_transaction_of (transactions demo_db_after_buy ! 0)]"
    by (simp add: lean_find_sorted_def lean_db_of_def lean_transaction_of_def demo_defs)
  have v': "\<forall>t \<in> set (lean_find_sorted (lean_db_of demo_db_after_buy) alice). valid_txn t"
    unfolding q' by (simp add: valid_txn_def lean_transaction_of_def demo_defs)
  have m: "mono (toISOString ?w)"
    by (simp add: demo_world_def mono_iso_1970)
  have n: "\<not> valid_txn (l_transactions demo_lean_mixed ! 3)"
    by (simp add: valid_txn_def demo_defs)
  have ne: "lean_find_sorted demo_lean_mixed alice \<noteq> []" unfolding q by simp
  have e: "getEquityTimeSeries ?w demo_lean_mixed alice =
     Inr [\<lparr>date = ''1970-01-01T00:00:00.000Z'', equity = 100000\<rparr>,
          \<lparr>date = ''1970-01-02T00:00:00.000Z'', equity = 101000\<rparr>]"
    unfolding getEquityTimeSeries_nonempty [OF h(1,2) ne] q
    by (simp add: equity_step_def apply_txn_def holdingsValue_of_def get_or_0_def Let_def demo_defs)
  note t1 = equity_points_per_valid_transaction [OF h(1,2,3) refl,
      where txn = "l_transactions demo_lean_mixed ! 3"
        and st = "\<lparr>cash = 1, holdings = [], lastPrice = [], points = []\<rparr>"]
  note t2 = equity_points_per_valid_transaction [OF h(1) h(4) h(3) refl]
  have ne': "lean_find_sorted (lean_db_of demo_db_after_buy) alice \<noteq> []" unfolding q' by simp
  note c = t1 [OF ne, unfolded v]
  from c have c1: "\<exists>pts. getEquityTimeSeries ?w demo_lean_mixed alice = Inr pts \<and>
      length pts = 2 \<and> (mono (toISOString ?w) \<longrightarrow> sorted (map date pts))"
    by (auto simp: numeral_2_eq_2)
  from c1 m have a1: "\<exists>pts. getEquityTimeSeries ?w demo_lean_mixed alice = Inr pts \<and>
      length pts = 2 \<and> sorted (map date pts)"
    by blast
  from c have a2: "\<exists>ps. GET ?w demo_lean_mixed (Some alice) = Json_pnl ps \<and> length ps = 2"
    by (auto simp: numeral_2_eq_2)
  from c n have a3: "equity_step ?w \<lparr>cash = 1, holdings = [], lastPrice = [], points = []\<rparr>
       (l_transactions demo_lean_mixed ! 3) =
     \<lparr>cash = 1, holdings = [], lastPrice = [], points = []\<rparr>"
    by blast
  note c' = t2 [OF ne', unfolded q']
  from c' v' q' have b:
    "\<exists>pts. getEquityTimeSeries ?w (lean_db_of demo_db_after_buy) alice = Inr pts \<and> length pts = 1"
    by auto
  from h ne v m a1 a2 a3 e n v' b show ?thesis by (simp add: list_all_iff)
qed

theorem equity_points_empty_log_counterexample:
  "lean_find_sorted (lean_db_of demo_db) alice = [] \<and>
   length (filter valid_txn (lean_find_sorted (lean_db_of demo_db) alice)) = 0 \<and>
   getEquityTimeSeries (demo_world 150 5000 ''t'') (lean_db_of demo_db) alice =
     Inr [\<lparr>date = ''1970-01-01T00:00:00.000Z'', equity = 100000\<rparr>] \<and>
   GET (demo_world 150 5000 ''t'') (lean_db_of demo_db) (Some alice) =
     Json_pnl [\<lparr>pnl_date = ''1970-01-01T00:00:00.000Z'', pnl = 0\<rparr>]"
  by (simp add: getEquityTimeSeries_def GET_def lean_find_sorted_def lean_db_of_def Let_def demo_defs)


text \<open>
  Claim C9 (the synthetic point). With no transaction in the log the equity series is the
  single point dated now with the starting balance as equity (the route: a PnL of zero).
  With a non-empty log the points are those of the valid transactions and no other, so
  when every transaction is malformed the series is empty.
\<close>

theorem synthetic_point_only_for_empty_log:
  assumes "new_ObjectId w uid = Some oid" and "l_users s oid = Some u" and "uid \<noteq> []"
    and "txns = lean_find_sorted s oid"
    and "sb = (case lu_startingBalance u of Some b \<Rightarrow> b | None \<Rightarrow> 100000)"
  shows "(txns = [] \<longrightarrow>
            getEquityTimeSeries w s uid = Inr [\<lparr>date = toISOString w (Date_now w), equity = sb\<rparr>] \<and>
            GET w s (Some uid) = Json_pnl [\<lparr>pnl_date = toISOString w (Date_now w), pnl = 0\<rparr>]) \<and>
         (txns \<noteq> [] \<longrightarrow>
            (\<exists>pts. getEquityTimeSeries w s uid = Inr pts \<and>
               map date pts =
                 map (\<lambda>t. toISOString w (the (l_createdAt t))) (filter valid_txn txns)) \<and>
            (\<exists>ps. GET w s (Some uid) = Json_pnl ps \<and>
               map pnl_date ps =
                 map (\<lambda>t. toISOString w (the (l_createdAt t))) (filter valid_txn txns))) \<and>
         (txns \<noteq> [] \<and> (\<forall>t \<in> set txns. \<not> valid_txn t) \<longrightarrow>
            getEquityTimeSeries w s uid = Inr [] \<and> GET w s (Some uid) = Json_pnl [])"
proof (intro conjI impI)
  assume "txns = []"
  with assms show "getEquityTimeSeries w s uid =
      Inr [\<lparr>date = toISOString w (Date_now w), equity = sb\<rparr>]"
    by (simp add: getEquityTimeSeries_def Let_def)
  from \<open>txns = []\<close> assms show "GET w s (Some uid) =
      Json_pnl [\<lparr>pnl_date = toISOString w (Date_now w), pnl = 0\<rparr>]"
    by (simp add: GET_def Let_def)
next
  assume ne: "txns \<noteq> []"
  with assms show "\<exists>pts. getEquityTimeSeries w s uid = Inr pts \<and>
      map date pts = map (\<lambda>t. toISOString w (the (l_createdAt t))) (filter valid_txn txns)"
    using getEquityTimeSeries_nonempty [of w uid oid s u] by (simp add: equity_loop_dates)
  from ne assms show "\<exists>ps. GET w s (Some uid) = Json_pnl ps \<and>
      map pnl_date ps = map (\<lambda>t. toISOString w (the (l_createdAt t))) (filter valid_txn txns)"
    using GET_nonempty [of w uid oid s u sb] by (simp add: pnl_loop_dates)
next
  assume a: "txns \<noteq> [] \<and> (\<forall>t \<in> set txns. \<not> valid_txn t)"
  then have f: "filter valid_txn txns = []" by (simp add: filter_empty_conv)
  have "map date (points (foldl (equity_step w)
       \<lparr>cash = sb, holdings = [], lastPrice = [], points = []\<rparr> txns)) = []"
    by (simp add: equity_loop_dates f)
  with a assms show "getEquityTimeSeries w s uid = Inr []"
    using getEquityTimeSeries_nonempty [of w uid oid s u] by simp
  have "map pnl_date (pnlData (foldl (pnl_step w sb)
       \<lparr>g_cash = sb, g_holdings = [], g_lastPrice = [], pnlData = []\<rparr> txns)) = []"
    by (simp add: pnl_loop_dates f)
  with a assms show "GET w s (Some uid) = Json_pnl []"
    using GET_nonempty [of w uid oid s u sb] by simp
qed

theorem synthetic_point_only_for_empty_log_witness:
  "lean_find_sorted (lean_db_of demo_db) alice = [] \<and>
   getEquityTimeSeries (demo_world 150 5000 ''t'') (lean_db_of demo_db) alice =
     Inr [\<lparr>date = ''1970-01-01T00:00:00.000Z'', equity = 100000\<rparr>] \<and>
   lean_find_sorted demo_lean_malformed alice \<noteq> [] \<and>
   length (lean_find_sorted demo_lean_malformed alice) = 3 \<and>
   list_all (\<lambda>t. \<not> valid_txn t) (lean_find_sorted demo_lean_malformed alice) \<and>
   getEquityTimeSeries (demo_world 150 5000 ''t'') demo_lean_malformed alice = Inr [] \<and>
   GET (demo_world 150 5000 ''t'') demo_lean_malformed (Some alice) = Json_pnl []"
proof -
  let ?w = "demo_world 150 5000 ''t''"
  let ?u = "\<lparr>lu_startingBalance = Some 100000\<rparr>"
  have h: "new_ObjectId ?w alice = Some alice" "l_users demo_lean_malformed alice = Some ?u"
    "alice \<noteq> []" "l_users (lean_db_of demo_db) alice = Some ?u"
    by (simp_all add: demo_defs lean_db_of_def)
  have q: "lean_find_sorted demo_lean_malformed alice =
      [l_transactions demo_lean_malformed ! 0, l_transactions demo_lean_malformed ! 1,
       l_transactions demo_lean_malformed ! 2]"
    by (simp add: lean_find_sorted_def demo_defs)
  have v: "\<forall>t \<in> set (lean_find_sorted demo_lean_malformed alice). \<not> valid_txn t"
    unfolding q by (simp add: valid_txn_def demo_defs)
  have ne: "lean_find_sorted demo_lean_malformed alice \<noteq> []" unfolding q by simp
  have l: "length (lean_find_sorted demo_lean_malformed alice) = 3" unfolding q by simp
  have e: "lean_find_sorted (lean_db_of demo_db) alice = []"
    by (simp add: lean_find_sorted_def lean_db_of_def demo_defs)
  note t1 = synthetic_point_only_for_empty_log [OF h(1) h(4) h(3) refl refl]
  note t2 = synthetic_point_only_for_empty_log [OF h(1) h(2) h(3) refl refl]
  from t1 e have a: "getEquityTimeSeries ?w (lean_db_of demo_db) alice =
     Inr [\<lparr>date = ''1970-01-01T00:00:00.000Z'', equity = 100000\<rparr>]"
    by (simp add: demo_world_def iso_1970_def day_ms_def)
  from t2 ne v have b: "getEquityTimeSeries ?w demo_lean_malformed alice = Inr []"
    "GET ?w demo_lean_malformed (Some alice) = Json_pnl []"
    by blast+
  from e a ne l v b show ?thesis by (simp add: list_all_iff)
qed

subsection \<open>Rounding\<close>

lemma toFixed_Number_nonpos: "x < 0 \<Longrightarrow> toFixed_Number f x \<le> 0"
proof -
  assume "x < 0"
  then have "0 \<le> (- x) * 10 ^ f" by (intro mult_nonneg_nonneg) simp_all
  then have "0 \<le> (- x) * 10 ^ f + 1 / 2" by simp
  then have "0 \<le> \<lfloor>(- x) * 10 ^ f + 1 / 2\<rfloor>" by simp
  then have "0 \<le> (of_int \<lfloor>(- x) * 10 ^ f + 1 / 2\<rfloor> :: real) / 10 ^ f" by simp
  with \<open>x < 0\<close> show ?thesis by (simp add: toFixed_Number_def)
qed

lemma toFixed_Number_decimal: "\<exists>k :: int. toFixed_Number f x = of_int k / 10 ^ f"
proof (cases "x < 0")
  case True
  then have "toFixed_Number f x = of_int (- \<lfloor>(- x) * 10 ^ f + 1 / 2\<rfloor>) / 10 ^ f"
    by (simp add: toFixed_Number_def)
  then show ?thesis by blast
next
  case False
  then have "toFixed_Number f x = of_int \<lfloor>x * 10 ^ f + 1 / 2\<rfloor> / 10 ^ f"
    by (simp add: toFixed_Number_def)
  then show ?thesis by blast
qed

lemma round_half_up_near:
  fixes y :: real
  shows "\<bar>of_int \<lfloor>y + 1 / 2\<rfloor> - y\<bar> \<le> 1 / 2"
proof -
  have "of_int \<lfloor>y + 1 / 2\<rfloor> \<le> y + 1 / 2" by (rule of_int_floor_le)
  moreover have "y + 1 / 2 < of_int \<lfloor>y + 1 / 2\<rfloor> + 1" by linarith
  ultimately show ?thesis by linarith
qed

lemma toFixed_Number_near: "\<bar>toFixed_Number f x - x\<bar> \<le> 1 / (2 * 10 ^ f)"
proof -
  have p: "(0::real) < 10 ^ f" by simp
  have scale: "\<bar>of_int k / 10 ^ f - y\<bar> \<le> 1 / (2 * 10 ^ f)"
    if "\<bar>of_int k - y * 10 ^ f\<bar> \<le> 1 / 2" for k :: int and y :: real
  proof -
    have "of_int k / 10 ^ f - y = (of_int k - y * 10 ^ f) / 10 ^ f"
      by (simp add: field_simps)
    then have "\<bar>of_int k / 10 ^ f - y\<bar> = \<bar>of_int k - y * 10 ^ f\<bar> / 10 ^ f"
      by simp
    also have "\<dots> \<le> (1 / 2) / 10 ^ f"
      using that p by (intro divide_right_mono) simp_all
    finally show ?thesis by simp
  qed
  show ?thesis
  proof (cases "x < 0")
    case True
    have "\<bar>of_int \<lfloor>(- x) * 10 ^ f + 1 / 2\<rfloor> / 10 ^ f - (- x)\<bar> \<le> 1 / (2 * 10 ^ f)"
      by (rule scale) (rule round_half_up_near)
    with True show ?thesis by (simp add: toFixed_Number_def abs_minus_commute)
  next
    case False
    have "\<bar>of_int \<lfloor>x * 10 ^ f + 1 / 2\<rfloor> / 10 ^ f - x\<bar> \<le> 1 / (2 * 10 ^ f)"
      by (rule scale) (rule round_half_up_near)
    with False show ?thesis by (simp add: toFixed_Number_def)
  qed
qed

subsection \<open>Largest position and concentration\<close>

lemma largest_of_Max:
  "marketValue (largest_of p ps) = Max (marketValue ` set (p # ps))"
proof (induction ps arbitrary: p)
  case Nil
  show ?case by (simp add: largest_of_def)
next
  case (Cons q qs)
  have "largest_of p (q # qs) = largest_of (if marketValue p > marketValue q then p else q) qs"
    by (simp add: largest_of_def)
  then have "marketValue (largest_of p (q # qs)) =
      Max (marketValue ` set ((if marketValue p > marketValue q then p else q) # qs))"
    by (simp only: Cons.IH)
  also have "\<dots> = Max (marketValue ` set (p # q # qs))"
  proof (cases "qs = []")
    case True
    then show ?thesis by (simp add: max_def)
  next
    case False
    then have ne: "marketValue ` set qs \<noteq> {}" by simp
    have fin: "finite (marketValue ` set qs)" by simp
    show ?thesis using ne fin
      by (simp add: max_def)
  qed
  finally show ?case .
qed

lemma largest_of_mem: "largest_of p ps \<in> set (p # ps)"
proof (induction ps arbitrary: p)
  case Nil
  show ?case by (simp add: largest_of_def)
next
  case (Cons q qs)
  have "largest_of p (q # qs) = largest_of (if marketValue p > marketValue q then p else q) qs"
    by (simp add: largest_of_def)
  with Cons.IH [of "if marketValue p > marketValue q then p else q"] show ?case
    by (auto split: if_splits)
qed

lemma snapshot_level:
  "concentrationRiskLevel (fst (snapshot_of w cache portfolio equityPoints)) =
     concentrationRiskLevel_of (largestPosition_of portfolio)"
  by (simp add: snapshot_of_def Let_def split_def)

lemma snapshot_largest:
  "largestPosition (fst (snapshot_of w cache portfolio equityPoints)) = largestPosition_of portfolio"
  by (simp add: snapshot_of_def Let_def split_def)

lemma level_of_rounded_share:
  assumes "positions portfolio = p # ps" and "0 < totalEquity portfolio"
  shows "concentrationRiskLevel_of (largestPosition_of portfolio) =
     spec_concentration_level
       (toFixed_Number 2 (Max (marketValue ` set (positions portfolio)) / totalEquity portfolio * 100))"
  using assms
  by (simp add: concentrationRiskLevel_of_def largestPosition_of_def Let_def
      spec_concentration_level_def largest_of_Max del: Max_insert set_simps)


lemma largestPosition_of_rounded_share:
  assumes "positions portfolio = p # ps" and "0 < totalEquity portfolio"
  shows "\<exists>l. largestPosition_of portfolio = Some l \<and>
     lp_allocationPct l =
       toFixed_Number 2 (Max (marketValue ` set (positions portfolio)) / totalEquity portfolio * 100)"
  using assms
  by (simp add: largestPosition_of_def Let_def largest_of_Max del: Max_insert set_simps)

lemma toFixed_Number_2_cases:
  "toFixed_Number 2 40 = 40" "toFixed_Number 2 41 = 41"
  "toFixed_Number 2 25 = 25" "toFixed_Number 2 26 = 26"
  by (simp_all add: toFixed_Number_def)

text \<open>
  Claim C6 (concentration risk thresholds), as amended. The level is decided on the
  \<^verbatim>\<open>allocationPct\<close> that the snapshot reports for the largest position: the share of the
  largest position in total equity, rounded to two decimals. The level is HIGH iff
  this rounded value exceeds 40, MEDIUM iff it exceeds 25 and does not exceed 40, LOW
  otherwise. A share of exactly 40 gives MEDIUM, 41 gives HIGH, exactly 25 gives LOW, 26
  gives MEDIUM, and a portfolio without positions gives LOW and reports no largest
  position.
\<close>

theorem concentration_risk_thresholds:
  assumes "snap = fst (snapshot_of w cache portfolio equityPoints)"
    and "level = concentrationRiskLevel snap"
    and "share = Max (marketValue ` set (positions portfolio)) / totalEquity portfolio * 100"
    and "rounded = toFixed_Number 2 share"
  shows "(positions portfolio = [] \<longrightarrow> level = LOW \<and> largestPosition snap = None) \<and>
    (positions portfolio \<noteq> [] \<and> 0 < totalEquity portfolio \<longrightarrow>
       (\<exists>l. largestPosition snap = Some l \<and> lp_allocationPct l = rounded) \<and>
       (level = HIGH \<longleftrightarrow> 40 < rounded) \<and>
       (level = MEDIUM \<longleftrightarrow> 25 < rounded \<and> \<not> 40 < rounded) \<and>
       (level = LOW \<longleftrightarrow> \<not> 25 < rounded) \<and>
       (share = 40 \<longrightarrow> level = MEDIUM) \<and> (share = 41 \<longrightarrow> level = HIGH) \<and>
       (share = 25 \<longrightarrow> level = LOW) \<and> (share = 26 \<longrightarrow> level = MEDIUM))"
proof (intro conjI impI)
  assume "positions portfolio = []"
  then show "level = LOW" "largestPosition snap = None"
    using assms(1,2)
    by (simp_all add: snapshot_level snapshot_largest largestPosition_of_def
        concentrationRiskLevel_of_def)
next
  assume a: "positions portfolio \<noteq> [] \<and> 0 < totalEquity portfolio"
  then obtain p ps where ps: "positions portfolio = p # ps"
    by (cases "positions portfolio") simp_all
  have l: "level = spec_concentration_level rounded"
    using assms a level_of_rounded_share [OF ps] by (simp add: snapshot_level)
  show "\<exists>l. largestPosition snap = Some l \<and> lp_allocationPct l = rounded"
    using assms a largestPosition_of_rounded_share [OF ps] by (simp add: snapshot_largest)
  show hi: "level = HIGH \<longleftrightarrow> 40 < rounded"
    by (simp add: l spec_concentration_level_def)
  show me: "level = MEDIUM \<longleftrightarrow> 25 < rounded \<and> \<not> 40 < rounded"
    by (auto simp: l spec_concentration_level_def)
  show lo: "level = LOW \<longleftrightarrow> \<not> 25 < rounded"
    by (auto simp: l spec_concentration_level_def)
  { assume "share = 40"
    with me assms(4) show "level = MEDIUM" by (simp add: toFixed_Number_2_cases) }
  { assume "share = 41"
    with hi assms(4) show "level = HIGH" by (simp add: toFixed_Number_2_cases) }
  { assume "share = 25"
    with lo assms(4) show "level = LOW" by (simp add: toFixed_Number_2_cases) }
  { assume "share = 26"
    with me assms(4) show "level = MEDIUM" by (simp add: toFixed_Number_2_cases) }
qed

lemma single_position_share:
  "Max (marketValue ` set (positions (single_position mv te))) = mv"
  "totalEquity (single_position mv te) = te"
  by (simp_all add: single_position_def)

theorem concentration_risk_thresholds_witness:
  "concentrationRiskLevel
     (fst (snapshot_of (demo_world 150 5000 ''t'') [] (single_position 40000 100000) [])) = MEDIUM \<and>
   concentrationRiskLevel
     (fst (snapshot_of (demo_world 150 5000 ''t'') [] (single_position 41000 100000) [])) = HIGH \<and>
   concentrationRiskLevel
     (fst (snapshot_of (demo_world 150 5000 ''t'') [] (single_position 25000 100000) [])) = LOW \<and>
   concentrationRiskLevel
     (fst (snapshot_of (demo_world 150 5000 ''t'') [] (single_position 26000 100000) [])) = MEDIUM \<and>
   concentrationRiskLevel
     (fst (snapshot_of (demo_world 150 5000 ''t'') [] (cash_only 100000) [])) = LOW \<and>
   largestPosition
     (fst (snapshot_of (demo_world 150 5000 ''t'') [] (cash_only 100000) [])) = None"
proof -
  let ?w = "demo_world 150 5000 ''t''"
  have p: "positions (single_position mv 100000) \<noteq> [] \<and> 0 < totalEquity (single_position mv 100000)"
    for mv by (simp add: single_position_def)
  have c: "positions (cash_only 100000) = []" by (simp add: cash_only_def)
  note t = concentration_risk_thresholds [OF refl refl refl refl,
      where w = ?w and cache = "[]" and equityPoints = "[]"]
  have a: "concentrationRiskLevel (fst (snapshot_of ?w [] (single_position 40000 100000) [])) = MEDIUM"
    using t [where portfolio = "single_position 40000 100000"] p [of 40000]
    by (auto simp: single_position_share)
  have b: "concentrationRiskLevel (fst (snapshot_of ?w [] (single_position 41000 100000) [])) = HIGH"
    using t [where portfolio = "single_position 41000 100000"] p [of 41000]
    by (auto simp: single_position_share)
  have d: "concentrationRiskLevel (fst (snapshot_of ?w [] (single_position 25000 100000) [])) = LOW"
    using t [where portfolio = "single_position 25000 100000"] p [of 25000]
    by (auto simp: single_position_share)
  have e: "concentrationRiskLevel (fst (snapshot_of ?w [] (single_position 26000 100000) [])) = MEDIUM"
    using t [where portfolio = "single_position 26000 100000"] p [of 26000]
    by (auto simp: single_position_share)
  have f: "concentrationRiskLevel (fst (snapshot_of ?w [] (cash_only 100000) [])) = LOW"
    "largestPosition (fst (snapshot_of ?w [] (cash_only 100000) [])) = None"
    using t [where portfolio = "cash_only 100000"] c by simp_all
  from a b d e f show ?thesis by simp
qed

theorem concentration_risk_thresholds_counterexample:
  "Max (marketValue ` set (positions (single_position 40004 100000))) /
     totalEquity (single_position 40004 100000) * 100 = 40004 / 1000 \<and>
   (40 :: real) < 40004 / 1000 \<and>
   spec_concentration_level (40004 / 1000) = HIGH \<and>
   concentrationRiskLevel
     (fst (snapshot_of (demo_world 150 5000 ''t'') [] (single_position 40004 100000) [])) = MEDIUM"
proof -
  have l: "concentrationRiskLevel
     (fst (snapshot_of (demo_world 150 5000 ''t'') [] (single_position 40004 100000) [])) = MEDIUM"
    by (simp add: snapshot_level concentrationRiskLevel_of_def largestPosition_of_def
        largest_of_def single_position_def toFixed_Number_def Let_def)
  show ?thesis
    by (simp add: l single_position_share spec_concentration_level_def)
qed

subsection \<open>Sector breakdown and the rounded fields of the snapshot\<close>

lemma get_or_0_update:
  "get_or_0 (AList.update k v m) k' = (if k' = k then v else get_or_0 m k')"
  by (simp add: get_or_0_def update_conv')

lemma get_or_0_Nil: "get_or_0 [] k = 0"
  by (simp add: get_or_0_def)

lemma sector_total_absent: "k \<notin> fst ` set rs \<Longrightarrow> sector_total k rs = 0"
proof -
  assume "k \<notin> fst ` set rs"
  then have "filter (\<lambda>r. fst r = k) rs = []"
    by (auto simp: filter_empty_conv)
  then show ?thesis by (simp add: sector_total_def)
qed

lemma sector_total_Cons:
  "sector_total k ((sect, mv) # rs) = (if sect = k then mv else 0) + sector_total k rs"
  by (simp add: sector_total_def)

lemma sectorMap_lookup:
  "map_of (foldl (\<lambda>m (sect, mv). AList.update sect (get_or_0 m sect + mv) m) m0 rs) k =
     (if k \<in> fst ` set rs then Some (get_or_0 m0 k + sector_total k rs) else map_of m0 k)"
proof (induction rs arbitrary: m0)
  case Nil
  show ?case by simp
next
  case (Cons r rs)
  obtain sect mv where r: "r = (sect, mv)" by (cases r)
  let ?m1 = "AList.update sect (get_or_0 m0 sect + mv) m0"
  have "map_of (foldl (\<lambda>m (sect, mv). AList.update sect (get_or_0 m sect + mv) m) m0 (r # rs)) k =
        map_of (foldl (\<lambda>m (sect, mv). AList.update sect (get_or_0 m sect + mv) m) ?m1 rs) k"
    by (simp add: r)
  also have "\<dots> = (if k \<in> fst ` set rs then Some (get_or_0 ?m1 k + sector_total k rs)
                     else map_of ?m1 k)"
    by (rule Cons.IH)
  also have "\<dots> = (if k \<in> fst ` set (r # rs) then Some (get_or_0 m0 k + sector_total k (r # rs))
                     else map_of m0 k)"
  proof (cases "k = sect")
    case True
    then show ?thesis
      by (simp add: r get_or_0_update update_conv' sector_total_Cons sector_total_absent)
  next
    case False
    then show ?thesis
      by (simp add: r get_or_0_update update_conv' sector_total_Cons)
  qed
  finally show ?case .
qed

lemma sectorMap_distinct:
  "distinct (map fst m0) \<Longrightarrow>
   distinct (map fst (foldl (\<lambda>m (sect, mv). AList.update sect (get_or_0 m sect + mv) m) m0 rs))"
proof (induction rs arbitrary: m0)
  case Nil
  then show ?case by simp
next
  case (Cons r rs)
  obtain sect mv where r: "r = (sect, mv)" by (cases r)
  from Cons.prems have "distinct (map fst (AList.update sect (get_or_0 m0 sect + mv) m0))"
    by (rule distinct_update)
  from Cons.IH [OF this] show ?case by (simp add: r)
qed

lemma sectorMap_entry:
  assumes "(sect, v) \<in> set (foldl (\<lambda>m (sect, mv). AList.update sect (get_or_0 m sect + mv) m) [] rs)"
  shows "v = sector_total sect rs"
proof -
  let ?m = "foldl (\<lambda>m (sect, mv). AList.update sect (get_or_0 m sect + mv) m) [] rs"
  have "distinct (map fst ?m)" by (rule sectorMap_distinct) simp
  with assms have "map_of ?m sect = Some v" by simp
  then show ?thesis
    by (simp add: sectorMap_lookup get_or_0_Nil split: if_splits)
qed

lemma sectorBreakdown_of_rounded:
  assumes "a \<in> set (sectorBreakdown_of portfolio rs)"
  shows "allocationPct a =
     (if 0 < totalEquity portfolio
      then toFixed_Number 2 (sector_total (sector a) rs / totalEquity portfolio * 100) else 0)"
proof -
  let ?m = "foldl (\<lambda>m (sect, mv). AList.update sect (get_or_0 m sect + mv) m) [] rs"
  from assms obtain sect v where e: "(sect, v) \<in> set ?m"
    and a: "a = \<lparr>sector = sect, allocationPct =
          (if totalEquity portfolio > 0 then toFixed_Number 2 (v / totalEquity portfolio * 100)
           else 0)\<rparr>"
    by (auto simp: sectorBreakdown_of_def Let_def)
  from sectorMap_entry [OF e] a show ?thesis by simp
qed

lemma snapshot_sectorBreakdown:
  "sectorBreakdown (fst (snapshot_of w cache portfolio equityPoints)) =
     (if positions portfolio = [] then []
      else sectorBreakdown_of portfolio (fst (sectorResults_of w cache (positions portfolio))))"
  by (simp add: snapshot_of_def Let_def split_def)

lemma snapshot_rounded_fields:
  "totalReturnPct (fst (snapshot_of w cache portfolio equityPoints)) =
     toFixed_Number 2 (totalReturnPercent portfolio)"
  "volatility (fst (snapshot_of w cache portfolio equityPoints)) =
     toFixed_Number 4 (calculateVolatility w (calculateDailyReturns equityPoints))"
  "sharpeRatio (fst (snapshot_of w cache portfolio equityPoints)) =
     toFixed_Number 4
       (calculateSharpe (annualisedReturn_of w equityPoints (calculateDailyReturns equityPoints))
          (calculateVolatility w (calculateDailyReturns equityPoints)) 0.03)"
  "cashAllocationPct (fst (snapshot_of w cache portfolio equityPoints)) =
     cashAllocationPct_of portfolio"
  by (simp_all add: snapshot_of_def Let_def split_def)


lemma concentrationRiskLevel_of_reported:
  "concentrationRiskLevel_of lp =
     (case lp of None \<Rightarrow> LOW | Some l \<Rightarrow> spec_concentration_level (lp_allocationPct l))"
  by (cases lp) (simp_all add: concentrationRiskLevel_of_def spec_concentration_level_def)

text \<open>
  Claim C7 (rounding at the output boundary), as amended. In the snapshot,
  \<^verbatim>\<open>totalReturnPct\<close>, \<^verbatim>\<open>largestPosition.allocationPct\<close> and the \<^verbatim>\<open>allocationPct\<close> of
  every sector are the full-precision percentages rounded to two decimals, and
  \<^verbatim>\<open>volatility\<close> and \<^verbatim>\<open>sharpeRatio\<close> are the full-precision values rounded to four
  (the Sharpe ratio is computed from the unrounded volatility and return); rounding gives
  the nearest decimal with that many digits. The concentration level is decided on the
  rounded \<^verbatim>\<open>largestPosition.allocationPct\<close> that the snapshot reports. (Nothing is said
  of \<^verbatim>\<open>cashAllocationPct\<close>.)
\<close>

theorem output_boundary_rounding:
  assumes "snap = fst (snapshot_of w cache portfolio equityPoints)"
    and "dailyReturns = calculateDailyReturns equityPoints"
    and "sectorResults = fst (sectorResults_of w cache (positions portfolio))"
  shows "totalReturnPct snap = toFixed_Number 2 (totalReturnPercent portfolio) \<and>
    (positions portfolio = p # ps \<and> 0 < totalEquity portfolio \<longrightarrow>
       largestPosition snap =
         Some \<lparr>lp_symbol = pos_symbol (largest_of p ps),
               lp_allocationPct =
                 toFixed_Number 2 (marketValue (largest_of p ps) / totalEquity portfolio * 100)\<rparr>) \<and>
    (\<forall>a \<in> set (sectorBreakdown snap).
       allocationPct a =
         (if 0 < totalEquity portfolio
          then toFixed_Number 2 (sector_total (sector a) sectorResults / totalEquity portfolio * 100)
          else 0)) \<and>
    volatility snap = toFixed_Number 4 (calculateVolatility w dailyReturns) \<and>
    sharpeRatio snap =
      toFixed_Number 4
        (calculateSharpe (annualisedReturn_of w equityPoints dailyReturns)
           (calculateVolatility w dailyReturns) 0.03) \<and>
    concentrationRiskLevel snap =
      (case largestPosition snap of
         None \<Rightarrow> LOW
       | Some l \<Rightarrow> spec_concentration_level (lp_allocationPct l)) \<and>
    (\<exists>k :: int. toFixed_Number f x = of_int k / 10 ^ f) \<and>
    \<bar>toFixed_Number f x - x\<bar> \<le> 1 / (2 * 10 ^ f)"
proof (intro conjI impI ballI)
  show "totalReturnPct snap = toFixed_Number 2 (totalReturnPercent portfolio)"
    by (simp add: assms(1) snapshot_rounded_fields)
  show "volatility snap = toFixed_Number 4 (calculateVolatility w dailyReturns)"
    by (simp add: assms(1,2) snapshot_rounded_fields)
  show "sharpeRatio snap =
      toFixed_Number 4
        (calculateSharpe (annualisedReturn_of w equityPoints dailyReturns)
           (calculateVolatility w dailyReturns) 0.03)"
    by (simp add: assms(1,2) snapshot_rounded_fields)
  show "concentrationRiskLevel snap =
      (case largestPosition snap of
         None \<Rightarrow> LOW
       | Some l \<Rightarrow> spec_concentration_level (lp_allocationPct l))"
    by (simp add: assms(1) snapshot_level snapshot_largest concentrationRiskLevel_of_reported)
  show "\<exists>k :: int. toFixed_Number f x = of_int k / 10 ^ f"
    by (rule toFixed_Number_decimal)
  show "\<bar>toFixed_Number f x - x\<bar> \<le> 1 / (2 * 10 ^ f)"
    by (rule toFixed_Number_near)
next
  assume "positions portfolio = p # ps \<and> 0 < totalEquity portfolio"
  then show "largestPosition snap =
         Some \<lparr>lp_symbol = pos_symbol (largest_of p ps),
               lp_allocationPct =
                 toFixed_Number 2 (marketValue (largest_of p ps) / totalEquity portfolio * 100)\<rparr>"
    by (simp add: assms(1) snapshot_largest largestPosition_of_def Let_def)
next
  fix a
  assume a: "a \<in> set (sectorBreakdown snap)"
  then have ne: "positions portfolio \<noteq> []"
    by (auto simp: assms(1) snapshot_sectorBreakdown split: if_splits)
  with a have "a \<in> set (sectorBreakdown_of portfolio sectorResults)"
    by (simp add: assms(1,3) snapshot_sectorBreakdown)
  then show "allocationPct a =
         (if 0 < totalEquity portfolio
          then toFixed_Number 2 (sector_total (sector a) sectorResults / totalEquity portfolio * 100)
          else 0)"
    by (rule sectorBreakdown_of_rounded)
qed

theorem output_boundary_rounding_witness:
  "positions (single_position 1 3) \<noteq> [] \<and> 0 < totalEquity (single_position 1 3) \<and>
   fst (sectorResults_of (demo_world 150 5000 ''t'') [] (positions (single_position 1 3))) =
     [(''Unknown'', 1)] \<and>
   totalReturnPct (fst (snapshot_of (demo_world 150 5000 ''t'') [] (single_position 1 3) [])) = - 100 \<and>
   largestPosition (fst (snapshot_of (demo_world 150 5000 ''t'') [] (single_position 1 3) [])) =
     Some \<lparr>lp_symbol = ''AAPL'', lp_allocationPct = 3333 / 100\<rparr> \<and>
   sectorBreakdown (fst (snapshot_of (demo_world 150 5000 ''t'') [] (single_position 1 3) [])) =
     [\<lparr>sector = ''Unknown'', allocationPct = 3333 / 100\<rparr>] \<and>
   volatility (fst (snapshot_of (demo_world 150 5000 ''t'') [] (single_position 1 3) [])) = 0 \<and>
   sharpeRatio (fst (snapshot_of (demo_world 150 5000 ''t'') [] (single_position 1 3) [])) = 0 \<and>
   concentrationRiskLevel (fst (snapshot_of (demo_world 150 5000 ''t'') [] (single_position 1 3) [])) =
     MEDIUM"
proof -
  let ?w = "demo_world 150 5000 ''t''"
  let ?pf = "single_position 1 3"
  let ?snap = "fst (snapshot_of ?w [] ?pf [])"
  let ?p = "\<lparr>pos_symbol = ''AAPL'', netQty = 1, avgCost = 1, pos_currentPrice = 1,
             marketValue = 1, unrealizedPnL = 0, gainPercent = 0, allocationPercent = 100\<rparr>"
  have pos: "positions ?pf = ?p # []" "totalEquity ?pf = 3"
    "totalReturnPercent ?pf = (3 - 100000) / 100000 * 100"
    by (simp_all add: single_position_def)
  have sr: "fst (sectorResults_of ?w [] (positions ?pf)) = [(''Unknown'', 1)]"
    by (simp add: pos getSymbolSector_def demo_world_def ascii_upper_def Let_def)
  have ne: "positions ?pf \<noteq> []" by (simp add: pos)
  have sb: "sectorBreakdown ?snap = [\<lparr>sector = ''Unknown'', allocationPct = 3333 / 100\<rparr>]"
    by (simp add: snapshot_sectorBreakdown ne sr pos(2) sectorBreakdown_of_def get_or_0_def
        toFixed_Number_def Let_def)
  have dr: "calculateDailyReturns [] = []" by (simp add: calculateDailyReturns_def)
  have vol: "calculateVolatility ?w [] = 0" by (simp add: calculateVolatility_def)
  note t = output_boundary_rounding [OF refl refl refl, where w = ?w and cache = "[]"
      and portfolio = ?pf and equityPoints = "[]" and p = ?p and ps = "[]"]
  from t pos have r: "totalReturnPct ?snap = - 100"
    by (simp add: toFixed_Number_def)
  from t pos have lp:
    "largestPosition ?snap = Some \<lparr>lp_symbol = ''AAPL'', lp_allocationPct = 3333 / 100\<rparr>"
    by (simp add: largest_of_def toFixed_Number_def)
  from t have v: "volatility ?snap = 0"
    by (simp add: dr vol toFixed_Number_def)
  from t have sh: "sharpeRatio ?snap = 0"
    by (simp add: dr vol calculateSharpe_def toFixed_Number_def)
  from t lp have lv: "concentrationRiskLevel ?snap = MEDIUM"
    by (simp add: spec_concentration_level_def)
  from pos sr r lp sb v sh lv show ?thesis by simp
qed

theorem output_boundary_rounding_counterexample:
  "cashAllocationPct (fst (snapshot_of (demo_world 150 5000 ''t'') [] (single_position 2 3) [])) =
     100 / 3 \<and>
   toFixed_Number 2 (100 / 3) = 3333 / 100 \<and>
   (100 / 3 :: real) \<noteq> 3333 / 100 \<and>
   Max (marketValue ` set (positions (single_position 25004 100000))) /
     totalEquity (single_position 25004 100000) * 100 = 25004 / 1000 \<and>
   spec_concentration_level (25004 / 1000) = MEDIUM \<and>
   concentrationRiskLevel
     (fst (snapshot_of (demo_world 150 5000 ''t'') [] (single_position 25004 100000) [])) = LOW"
proof -
  have c: "cashAllocationPct (fst (snapshot_of (demo_world 150 5000 ''t'') [] (single_position 2 3) [])) =
     100 / 3"
    by (simp add: snapshot_rounded_fields cashAllocationPct_of_def single_position_def)
  have r: "toFixed_Number 2 (100 / 3) = 3333 / 100"
    by (simp add: toFixed_Number_def)
  have l: "concentrationRiskLevel
     (fst (snapshot_of (demo_world 150 5000 ''t'') [] (single_position 25004 100000) [])) = LOW"
    by (simp add: snapshot_level concentrationRiskLevel_of_def largestPosition_of_def
        largest_of_def single_position_def toFixed_Number_def Let_def)
  have s: "Max (marketValue ` set (positions (single_position 25004 100000))) /
     totalEquity (single_position 25004 100000) * 100 = 25004 / 1000"
    by (simp add: single_position_def)
  from c r l s show ?thesis by (simp add: spec_concentration_level_def)
qed

subsection \<open>The return behind the Sharpe ratio\<close>

lemma equity_step_valid_point:
  assumes "valid_txn txn"
  shows "points (equity_step w st txn) =
     points st @
       [\<lparr>date = toISOString w (the (l_createdAt txn)),
         equity = (case apply_txn (cash st) (holdings st) (lastPrice st) txn
                          (the (l_totalAmount txn)) of
                     (c, hs, lp) \<Rightarrow> c + holdingsValue_of hs lp)\<rparr>]"
proof -
  from assms obtain created amount where h: "l_createdAt txn = Some created"
    "l_totalAmount txn = Some amount" "0 < amount" "l_type txn = ''BUY'' \<or> l_type txn = ''SELL''"
    by (rule valid_txnE)
  obtain c hs lp where a: "apply_txn (cash st) (holdings st) (lastPrice st) txn amount = (c, hs, lp)"
    by (cases "apply_txn (cash st) (holdings st) (lastPrice st) txn amount")
  have ne: "\<not> (l_type txn \<noteq> ''BUY'' \<and> l_type txn \<noteq> ''SELL'')" using h(4) by blast
  show ?thesis unfolding equity_step_def using h(1-3) a ne by simp
qed

lemma equity_loop_points_prefix:
  "\<exists>more. points (foldl (equity_step w) st txns) = points st @ more"
proof (induction txns arbitrary: st)
  case Nil
  show ?case by simp
next
  case (Cons txn txns)
  from Cons.IH [of "equity_step w st txn"] obtain more where
    m: "points (foldl (equity_step w) (equity_step w st txn) txns) =
          points (equity_step w st txn) @ more" by blast
  show ?case
  proof (cases "valid_txn txn")
    case True
    with m show ?thesis by (simp add: equity_step_valid_point)
  next
    case False
    with m show ?thesis by (simp add: equity_step_malformed)
  qed
qed

lemma equity_loop_skip_malformed:
  "\<forall>x \<in> set pre. \<not> valid_txn x \<Longrightarrow> foldl (equity_step w) st pre = st"
  by (induction pre arbitrary: st) (simp_all add: equity_step_malformed)

lemma equity_loop_first_point:
  assumes "filter valid_txn txns = t # ts" and "points st = []"
  shows "\<exists>more. points (foldl (equity_step w) st txns) =
     \<lparr>date = toISOString w (the (l_createdAt t)),
      equity = (case apply_txn (cash st) (holdings st) (lastPrice st) t (the (l_totalAmount t)) of
                  (c, hs, lp) \<Rightarrow> c + holdingsValue_of hs lp)\<rparr> # more"
proof -
  from assms(1) obtain pre rest where s: "txns = pre @ t # rest"
    and p: "\<forall>x \<in> set pre. \<not> valid_txn x" and v: "valid_txn t"
    by (auto simp: filter_eq_Cons_iff)
  have "foldl (equity_step w) st txns = foldl (equity_step w) (equity_step w st t) rest"
    by (simp add: s equity_loop_skip_malformed [OF p])
  moreover obtain more where
    "points (foldl (equity_step w) (equity_step w st t) rest) = points (equity_step w st t) @ more"
    using equity_loop_points_prefix [of w "equity_step w st t" rest] by blast
  ultimately show ?thesis
    using v assms(2) by (simp add: equity_step_valid_point)
qed

lemma totalReturn_of_Cons:
  "totalReturn_of (p0 # rest) =
     (if 0 < equity p0 then (equity (last (p0 # rest)) - equity p0) / equity p0 else 0)"
  by (simp add: totalReturn_of_def firstEquity_of_def lastEquity_of_def Let_def)

lemma totalReturn_of_Nil: "totalReturn_of [] = 0"
  by (simp add: totalReturn_of_def firstEquity_of_def lastEquity_of_def)

lemma getUserPortfolio_totalReturnPercent:
  assumes "getUserPortfolio w s uid = Inr pf" and "new_ObjectId w uid = Some oid"
    and "users s oid = Some u"
  shows "totalReturnPercent pf =
     (if or_default (startingBalance u) 100000 > 0
      then (totalEquity pf - or_default (startingBalance u) 100000) /
             or_default (startingBalance u) 100000 * 100
      else 0)"
  using assms by (auto simp: getUserPortfolio_def Let_def)


lemma demo_two_buys_points:
  "getEquityTimeSeries (demo_world 100 (3 * day_ms) ''t'') (lean_db_of demo_db_two_buys) alice =
     Inr [\<lparr>date = ''1970-01-01T00:00:00.000Z'', equity = 100000\<rparr>,
          \<lparr>date = ''1970-01-02T00:00:00.000Z'', equity = 100100\<rparr>]"
  by (simp add: getEquityTimeSeries_def lean_find_sorted_def lean_db_of_def lean_transaction_of_def
      equity_step_def apply_txn_def holdingsValue_of_def get_or_0_def Let_def demo_defs)

lemma demo_two_buys_returns:
  "calculateDailyReturns
     [\<lparr>date = ''1970-01-01T00:00:00.000Z'', equity = 100000\<rparr>,
      \<lparr>date = ''1970-01-02T00:00:00.000Z'', equity = 100100\<rparr>] = [1 / 1000]"
  by (simp add: calculateDailyReturns_def Let_def less_eq_char_def less_char_def)

lemma demo_two_buys_portfolio:
  "getUserPortfolio (demo_world 100 (3 * day_ms) ''t'') demo_db_two_buys alice =
     Inr \<lparr>pf_balance = 97900,
          positions = [\<lparr>pos_symbol = ''AAPL'', netQty = 20, avgCost = 105, pos_currentPrice = 100,
                        marketValue = 2000, unrealizedPnL = - 100, gainPercent = - (100 / 21),
                        allocationPercent = 100\<rparr>],
          totalMarketValue = 2000, totalUnrealizedPnL = - 100, totalEquity = 99900,
          totalReturn = - 100, totalReturnPercent = - (1 / 10)\<rparr>"
  by (simp add: getUserPortfolio_def Transaction_find_sorted_def or_default_def Let_def
      replay_def replay_step_def demo_defs)


text \<open>
  Claim C10 (the annualised return behind the Sharpe ratio). The Sharpe ratio of the
  snapshot is computed from an annualised return that is derived from the equity curve:
  the total return is the last equity of the curve against the first one, divided by the
  first, and zero when the first equity is not positive (or the curve is empty); the
  first point of the curve is the equity just after the first valid transaction; the
  annualised return is \<^verbatim>\<open>Math.pow(1 + totalReturn, 252 / numDays) - 1\<close> with \<open>numDays\<close>
  the number of daily returns, and zero when there is none. The snapshot's
  \<^verbatim>\<open>totalReturnPct\<close> is the rounded return of the portfolio against the starting
  balance, and the two returns can differ.
\<close>

theorem sharpe_return_from_equity_curve:
  assumes "snap = fst (snapshot_of w cache portfolio equityPoints)"
    and "dailyReturns = calculateDailyReturns equityPoints"
    and "numDays = length dailyReturns"
    and "annualisedReturn = annualisedReturn_of w equityPoints dailyReturns"
    and "sb = (case lu_startingBalance lu of Some b \<Rightarrow> b | None \<Rightarrow> 100000)"
  shows "sharpeRatio snap =
      toFixed_Number 4 (calculateSharpe annualisedReturn (calculateVolatility w dailyReturns) 0.03) \<and>
    annualisedReturn =
      (if numDays = 0 then 0
       else Math_pow w (1 + totalReturn_of equityPoints) (252 / real numDays) - 1) \<and>
    totalReturn_of [] = 0 \<and>
    totalReturn_of (pt # rest) =
      (if 0 < equity pt then (equity (last (pt # rest)) - equity pt) / equity pt else 0) \<and>
    (new_ObjectId w uid = Some oid \<and> l_users ls oid = Some lu \<and>
     filter valid_txn (lean_find_sorted ls oid) = t # ts \<longrightarrow>
       (\<exists>more. getEquityTimeSeries w ls uid =
          Inr (\<lparr>date = toISOString w (the (l_createdAt t)),
                equity = (case apply_txn sb [] [] t (the (l_totalAmount t)) of
                            (c, hs, lp) \<Rightarrow> c + holdingsValue_of hs lp)\<rparr> # more))) \<and>
    totalReturnPct snap = toFixed_Number 2 (totalReturnPercent portfolio) \<and>
    (getUserPortfolio w s uid = Inr pf \<and> new_ObjectId w uid = Some oid \<and> users s oid = Some u \<longrightarrow>
       totalReturnPercent pf =
         (if or_default (startingBalance u) 100000 > 0
          then (totalEquity pf - or_default (startingBalance u) 100000) /
                 or_default (startingBalance u) 100000 * 100
          else 0)) \<and>
    (\<exists>w' s' uid' pf' pts'.
       getUserPortfolio w' s' uid' = Inr pf' \<and>
       getEquityTimeSeries w' (lean_db_of s') uid' = Inr pts' \<and>
       totalReturn_of pts' * 100 \<noteq> totalReturnPercent pf')"
proof (intro conjI impI)
  show "sharpeRatio snap =
      toFixed_Number 4 (calculateSharpe annualisedReturn (calculateVolatility w dailyReturns) 0.03)"
    by (simp add: assms(1,2,4) snapshot_rounded_fields)
  show "annualisedReturn =
      (if numDays = 0 then 0
       else Math_pow w (1 + totalReturn_of equityPoints) (252 / real numDays) - 1)"
    by (simp add: assms(3,4) annualisedReturn_of_def Let_def)
  show "totalReturn_of [] = 0" by (rule totalReturn_of_Nil)
  show "totalReturn_of (pt # rest) =
      (if 0 < equity pt then (equity (last (pt # rest)) - equity pt) / equity pt else 0)"
    by (rule totalReturn_of_Cons)
  show "totalReturnPct snap = toFixed_Number 2 (totalReturnPercent portfolio)"
    by (simp add: assms(1) snapshot_rounded_fields)
next
  assume a: "new_ObjectId w uid = Some oid \<and> l_users ls oid = Some lu \<and>
     filter valid_txn (lean_find_sorted ls oid) = t # ts"
  then have ne: "lean_find_sorted ls oid \<noteq> []" by auto
  from a have e: "getEquityTimeSeries w ls uid =
      Inr (points (foldl (equity_step w)
        \<lparr>cash = sb, holdings = [], lastPrice = [], points = []\<rparr> (lean_find_sorted ls oid)))"
    using getEquityTimeSeries_nonempty [of w uid oid ls lu] ne by (simp add: assms(5))
  from a equity_loop_first_point [of "lean_find_sorted ls oid" t ts
      "\<lparr>cash = sb, holdings = [], lastPrice = [], points = []\<rparr>" w]
  show "\<exists>more. getEquityTimeSeries w ls uid =
          Inr (\<lparr>date = toISOString w (the (l_createdAt t)),
                equity = (case apply_txn sb [] [] t (the (l_totalAmount t)) of
                            (c, hs, lp) \<Rightarrow> c + holdingsValue_of hs lp)\<rparr> # more)"
    by (simp add: e)
next
  assume "getUserPortfolio w s uid = Inr pf \<and> new_ObjectId w uid = Some oid \<and> users s oid = Some u"
  then show "totalReturnPercent pf =
         (if or_default (startingBalance u) 100000 > 0
          then (totalEquity pf - or_default (startingBalance u) 100000) /
                 or_default (startingBalance u) 100000 * 100
          else 0)"
    using getUserPortfolio_totalReturnPercent [of w s uid pf oid u] by blast
next
  let ?pts = "[\<lparr>date = ''1970-01-01T00:00:00.000Z'', equity = 100000\<rparr>,
               \<lparr>date = ''1970-01-02T00:00:00.000Z'', equity = 100100\<rparr>]"
  let ?pf = "\<lparr>pf_balance = 97900,
          positions = [\<lparr>pos_symbol = ''AAPL'', netQty = 20, avgCost = 105, pos_currentPrice = 100,
                        marketValue = 2000, unrealizedPnL = - 100, gainPercent = - (100 / 21),
                        allocationPercent = 100\<rparr>],
          totalMarketValue = 2000, totalUnrealizedPnL = - 100, totalEquity = 99900,
          totalReturn = - 100, totalReturnPercent = - (1 / 10)\<rparr>"
  have "totalReturn_of ?pts * 100 \<noteq> totalReturnPercent ?pf"
    by (simp add: totalReturn_of_Cons)
  with demo_two_buys_points demo_two_buys_portfolio
  show "\<exists>w' s' uid' pf' pts'.
       getUserPortfolio w' s' uid' = Inr pf' \<and>
       getEquityTimeSeries w' (lean_db_of s') uid' = Inr pts' \<and>
       totalReturn_of pts' * 100 \<noteq> totalReturnPercent pf'"
    by (intro exI [of _ "demo_world 100 (3 * day_ms) ''t''"] exI [of _ demo_db_two_buys]
        exI [of _ alice] exI [of _ ?pf] exI [of _ ?pts]) simp
qed



lemma demo_two_buys_user:
  "new_ObjectId (demo_world 100 (3 * day_ms) ''t'') alice = Some alice"
  "l_users (lean_db_of demo_db_two_buys) alice = Some \<lparr>lu_startingBalance = Some 100000\<rparr>"
  "users demo_db_two_buys alice = Some \<lparr>balance = 97900, startingBalance = 100000\<rparr>"
  by (simp_all add: lean_db_of_def demo_defs)

lemma demo_two_buys_valid:
  "filter valid_txn (lean_find_sorted (lean_db_of demo_db_two_buys) alice) =
     [lean_transaction_of (transactions demo_db_two_buys ! 0),
      lean_transaction_of (transactions demo_db_two_buys ! 1)]"
  by (simp add: lean_find_sorted_def lean_db_of_def lean_transaction_of_def valid_txn_def demo_defs)

lemma demo_two_buys_first:
  "apply_txn 100000 [] [] (lean_transaction_of (transactions demo_db_two_buys ! 0))
     (the (l_totalAmount (lean_transaction_of (transactions demo_db_two_buys ! 0)))) =
     (99000, [(''AAPL'', 10)], [(''AAPL'', 100)])"
  "toISOString (demo_world 100 (3 * day_ms) ''t'')
     (the (l_createdAt (lean_transaction_of (transactions demo_db_two_buys ! 0)))) =
     ''1970-01-01T00:00:00.000Z''"
  "holdingsValue_of [(''AAPL'', 10)] [(''AAPL'', 100)] = 1000"
  by (simp_all add: apply_txn_def lean_transaction_of_def holdingsValue_of_def get_or_0_def
      Let_def demo_defs)

lemma calculateVolatility_single: "calculateVolatility w [r] = 0"
  by (simp add: calculateVolatility_def)

lemma calculateSharpe_flat: "calculateSharpe x 0 y = 0"
  by (simp add: calculateSharpe_def)

lemma toFixed_Number_0: "toFixed_Number f 0 = 0"
  by (simp add: toFixed_Number_def)

theorem sharpe_return_from_equity_curve_witness:
  "filter valid_txn (lean_find_sorted (lean_db_of demo_db_two_buys) alice) =
     [lean_transaction_of (transactions demo_db_two_buys ! 0),
      lean_transaction_of (transactions demo_db_two_buys ! 1)] \<and>
   (\<exists>more. getEquityTimeSeries (demo_world 100 (3 * day_ms) ''t'') (lean_db_of demo_db_two_buys) alice =
      Inr (\<lparr>date = ''1970-01-01T00:00:00.000Z'', equity = 100000\<rparr> # more)) \<and>
   getEquityTimeSeries (demo_world 100 (3 * day_ms) ''t'') (lean_db_of demo_db_two_buys) alice =
     Inr [\<lparr>date = ''1970-01-01T00:00:00.000Z'', equity = 100000\<rparr>,
          \<lparr>date = ''1970-01-02T00:00:00.000Z'', equity = 100100\<rparr>] \<and>
   calculateDailyReturns
     [\<lparr>date = ''1970-01-01T00:00:00.000Z'', equity = 100000\<rparr>,
      \<lparr>date = ''1970-01-02T00:00:00.000Z'', equity = 100100\<rparr>] = [1 / 1000] \<and>
   totalReturn_of
     [\<lparr>date = ''1970-01-01T00:00:00.000Z'', equity = 100000\<rparr>,
      \<lparr>date = ''1970-01-02T00:00:00.000Z'', equity = 100100\<rparr>] = 1 / 1000 \<and>
   annualisedReturn_of (demo_world 100 (3 * day_ms) ''t'')
     [\<lparr>date = ''1970-01-01T00:00:00.000Z'', equity = 100000\<rparr>,
      \<lparr>date = ''1970-01-02T00:00:00.000Z'', equity = 100100\<rparr>] [1 / 1000] =
     Math_pow (demo_world 100 (3 * day_ms) ''t'') (1001 / 1000) 252 - 1 \<and>
   (\<exists>pf. getUserPortfolio (demo_world 100 (3 * day_ms) ''t'') demo_db_two_buys alice = Inr pf \<and>
      totalEquity pf = 99900 \<and> totalReturnPercent pf = - (1 / 10) \<and>
      totalReturnPct (fst (snapshot_of (demo_world 100 (3 * day_ms) ''t'') [] pf
        [\<lparr>date = ''1970-01-01T00:00:00.000Z'', equity = 100000\<rparr>,
         \<lparr>date = ''1970-01-02T00:00:00.000Z'', equity = 100100\<rparr>])) = - (1 / 10) \<and>
      sharpeRatio (fst (snapshot_of (demo_world 100 (3 * day_ms) ''t'') [] pf
        [\<lparr>date = ''1970-01-01T00:00:00.000Z'', equity = 100000\<rparr>,
         \<lparr>date = ''1970-01-02T00:00:00.000Z'', equity = 100100\<rparr>])) = 0)"
proof -
  let ?w = "demo_world 100 (3 * day_ms) ''t''"
  let ?p1 = "\<lparr>date = ''1970-01-01T00:00:00.000Z'', equity = 100000\<rparr>"
  let ?p2 = "\<lparr>date = ''1970-01-02T00:00:00.000Z'', equity = 100100\<rparr>"
  let ?pts = "[?p1, ?p2]"
  let ?pf = "\<lparr>pf_balance = 97900,
          positions = [\<lparr>pos_symbol = ''AAPL'', netQty = 20, avgCost = 105, pos_currentPrice = 100,
                        marketValue = 2000, unrealizedPnL = - 100, gainPercent = - (100 / 21),
                        allocationPercent = 100\<rparr>],
          totalMarketValue = 2000, totalUnrealizedPnL = - 100, totalEquity = 99900,
          totalReturn = - 100, totalReturnPercent = - (1 / 10)\<rparr>"
  let ?lu = "\<lparr>lu_startingBalance = Some 100000\<rparr>"
  let ?u = "\<lparr>balance = 97900, startingBalance = 100000\<rparr>"
  let ?t0 = "lean_transaction_of (transactions demo_db_two_buys ! 0)"
  let ?t1 = "lean_transaction_of (transactions demo_db_two_buys ! 1)"
  note t = sharpe_return_from_equity_curve [OF refl refl refl refl refl,
      where w = ?w and cache = "[]" and portfolio = ?pf and equityPoints = ?pts
        and lu = ?lu and pt = ?p1 and rest = "[?p2]" and uid = alice and oid = alice
        and ls = "lean_db_of demo_db_two_buys" and t = ?t0 and ts = "[?t1]"
        and s = demo_db_two_buys and pf = ?pf and u = ?u]
  note c1 = t [THEN conjunct1]
  note c2 = t [THEN conjunct2, THEN conjunct1]
  note c4 = t [THEN conjunct2, THEN conjunct2, THEN conjunct2, THEN conjunct1]
  note c5 = t [THEN conjunct2, THEN conjunct2, THEN conjunct2, THEN conjunct2, THEN conjunct1]
  note c6 = t [THEN conjunct2, THEN conjunct2, THEN conjunct2, THEN conjunct2, THEN conjunct2,
      THEN conjunct1]
  note c7 = t [THEN conjunct2, THEN conjunct2, THEN conjunct2, THEN conjunct2, THEN conjunct2,
      THEN conjunct2, THEN conjunct1]
  have pre: "new_ObjectId ?w alice = Some alice \<and>
      l_users (lean_db_of demo_db_two_buys) alice = Some ?lu \<and>
      filter valid_txn (lean_find_sorted (lean_db_of demo_db_two_buys) alice) = ?t0 # [?t1]"
    using demo_two_buys_user(1,2) demo_two_buys_valid by simp
  from c5 [rule_format, OF pre] have a:
    "\<exists>more. getEquityTimeSeries ?w (lean_db_of demo_db_two_buys) alice = Inr (?p1 # more)"
    by (simp add: demo_two_buys_first)
  from c4 have tr: "totalReturn_of ?pts = 1 / 1000" by simp
  from c2 have ar: "annualisedReturn_of ?w ?pts [1 / 1000] = Math_pow ?w (1001 / 1000) 252 - 1"
    by (simp add: demo_two_buys_returns tr)
  from c1 have sh: "sharpeRatio (fst (snapshot_of ?w [] ?pf ?pts)) = 0"
    by (simp only: demo_two_buys_returns calculateVolatility_single calculateSharpe_flat
        toFixed_Number_0)
  from c6 have rp: "totalReturnPct (fst (snapshot_of ?w [] ?pf ?pts)) = - (1 / 10)"
    by (simp add: toFixed_Number_def)
  have pre': "getUserPortfolio ?w demo_db_two_buys alice = Inr ?pf \<and>
      new_ObjectId ?w alice = Some alice \<and> users demo_db_two_buys alice = Some ?u"
    using demo_two_buys_portfolio demo_two_buys_user(1,3) by (intro conjI)
  from c7 [rule_format, OF pre'] have trp: "totalReturnPercent ?pf = - (1 / 10)"
    by (simp add: or_default_def)
  have pf: "\<exists>pf. getUserPortfolio ?w demo_db_two_buys alice = Inr pf \<and>
      totalEquity pf = 99900 \<and> totalReturnPercent pf = - (1 / 10) \<and>
      totalReturnPct (fst (snapshot_of ?w [] pf ?pts)) = - (1 / 10) \<and>
      sharpeRatio (fst (snapshot_of ?w [] pf ?pts)) = 0"
  proof (intro exI [where x = ?pf] conjI)
    show "getUserPortfolio ?w demo_db_two_buys alice = Inr ?pf" by (rule demo_two_buys_portfolio)
    show "totalEquity ?pf = 99900" by simp
    show "totalReturnPercent ?pf = - (1 / 10)" by (rule trp)
    show "totalReturnPct (fst (snapshot_of ?w [] ?pf ?pts)) = - (1 / 10)" by (rule rp)
    show "sharpeRatio (fst (snapshot_of ?w [] ?pf ?pts)) = 0" by (rule sh)
  qed
  show ?thesis
    by (intro conjI)
       (rule demo_two_buys_valid a demo_two_buys_points demo_two_buys_returns tr ar pf)+
qed

end
